theory Spec2Isabelle
  imports Main "HOL-Library.AList"
begin

section \<open>Strings: the textual type-reference grammar\<close>

text \<open>
  The registry is the TypeScript module \<^verbatim>\<open>typing.ts\<close> (with its seed list
  \<^verbatim>\<open>primitives.ts\<close>). A JavaScript string is modelled as a \<open>string\<close>, one \<open>char\<close>
  per code unit; code units above 255 are outside the model. Of the code units in range,
  the line terminators (which the \<^verbatim>\<open>.\<close> of a regular expression does not match) are
  LF and CR, and the white space that \<^verbatim>\<open>trim()\<close> strips is TAB, LF, VT, FF, CR, SP and
  NBSP.
\<close>

definition is_line_terminator :: "char \<Rightarrow> bool" where
  "is_line_terminator c = (c = CHR 0x0A \<or> c = CHR 0x0D)"

definition is_white_space :: "char \<Rightarrow> bool" where
  "is_white_space c =
     (c = CHR 0x09 \<or> c = CHR 0x0A \<or> c = CHR 0x0B \<or> c = CHR 0x0C \<or> c = CHR 0x0D
      \<or> c = CHR 0x20 \<or> c = CHR 0xA0)"

definition trim :: "string \<Rightarrow> string" where
  "trim s = rev (dropWhile is_white_space (rev (dropWhile is_white_space s)))"

text \<open>
  \<^verbatim>\<open>name.split("::", 2)\<close>: the pieces between the occurrences of the separator, found
  left to right without overlap, and of those at most the first two. \<open>split_colons acc s\<close>
  holds the current piece reversed in \<open>acc\<close>.
\<close>

fun split_colons :: "string \<Rightarrow> string \<Rightarrow> string list" where
  "split_colons acc [] = [rev acc]"
| "split_colons acc [c] = [rev (c # acc)]"
| "split_colons acc (c # d # cs) =
     (if c = CHR '':'' \<and> d = CHR '':'' then rev acc # split_colons [] cs
      else split_colons (c # acc) (d # cs))"

definition split2 :: "string \<Rightarrow> string list" where
  "split2 name = take 2 (split_colons [] name)"

text \<open>
  \<^verbatim>\<open>let [module, fqn] = name.split("::", 2); if (!fqn) { fqn = module; module = undefined; }\<close>
  A missing second piece and an empty one are both falsy. \<open>None\<close> is \<^verbatim>\<open>undefined\<close>.
\<close>

definition split_module :: "string \<Rightarrow> string option \<times> string" where
  "split_module name =
     (case split2 name of
        m # f # _ \<Rightarrow> if f = [] then (None, m) else (Some m, f)
      | [m] \<Rightarrow> (None, m)
      | [] \<Rightarrow> (None, []))"

text \<open>
  The regular expression of line 176 (anchored at both ends; a group \<^verbatim>\<open>(.*)\<close>, an
  escaped \<^verbatim>\<open><\<close>, a group \<^verbatim>\<open>(.*)\<close>, an escaped \<^verbatim>\<open>>\<close>): the whole string is a first
  group, a \<^verbatim>\<open><\<close>, a second group and a final \<^verbatim>\<open>>\<close>, no group holding a line terminator.
  The first group is greedy, so it runs to the last \<^verbatim>\<open><\<close> of the string. The result is
  the pair of the two groups.
\<close>

definition match_generic :: "string \<Rightarrow> (string \<times> string) option" where
  "match_generic fqn =
     (if fqn \<noteq> [] \<and> last fqn = CHR ''>'' \<and> CHR ''<'' \<in> set (butlast fqn)
         \<and> \<not> list_ex is_line_terminator fqn
      then
        (let body = butlast fqn;
             q = rev (takeWhile (\<lambda>c. c \<noteq> CHR ''<'') (rev body));
             p = rev (tl (dropWhile (\<lambda>c. c \<noteq> CHR ''<'') (rev body)))
         in Some (p, q))
      else None)"

text \<open>
  The head of \<^verbatim>\<open>parse\<close>, lines 171 to 177: the module, the path and the parameter list
  of a name.
\<close>

definition split_name :: "string \<Rightarrow> string option \<times> string \<times> string option" where
  "split_name name =
     (let (module, fqn) = split_module name in
      case match_generic fqn of
        Some (path, typeParams) \<Rightarrow> (module, path, Some typeParams)
      | None \<Rightarrow> (module, fqn, None))"

text \<open>
  The loop of lines 183 to 196 over \<^verbatim>\<open>typeParams\<close>. \<open>intent\<close> is the depth counter, \<open>cur\<close>
  holds, reversed, the characters from \<^verbatim>\<open>lastIndex\<close> to the current index, so that
  \<^verbatim>\<open>typeParams.substring(lastIndex, i)\<close> is \<open>rev cur\<close>. The last equation is line 196.
\<close>

fun split_params_loop :: "int \<Rightarrow> string \<Rightarrow> string \<Rightarrow> string list" where
  "split_params_loop intent cur [] = [trim (rev cur)]"
| "split_params_loop intent cur (c # cs) =
     (if c = CHR ''<'' then split_params_loop (intent + 1) (c # cur) cs
      else if c = CHR ''>'' then split_params_loop (intent - 1) (c # cur) cs
      else if c = CHR '','' \<and> intent = 0 then trim (rev cur) # split_params_loop intent [] cs
      else split_params_loop intent (c # cur) cs)"

definition split_params :: "string \<Rightarrow> string list" where
  "split_params typeParams = split_params_loop 0 [] typeParams"

section \<open>Values, objects and the heap\<close>

text \<open>
  A JavaScript value is a primitive or a reference to an object of the heap. Numbers stand
  in as integers: the module only ever asks a number for its \<^verbatim>\<open>typeof\<close>. A symbol is its
  serial number: \<^verbatim>\<open>Symbol()\<close> takes the next one, so no two symbols are equal.
\<close>

type_synonym addr = nat

datatype val = Undefined | Null | Bool bool | Num int | BigInt int | Str string | Sym nat | Ref addr

datatype key = KStr string | KSym nat

datatype okind = PlainObject | FunctionObject | ArrayObject

record pdesc =
  pvalue :: val
  writable :: bool
  enumerable :: bool
  configurable :: bool

text \<open>
  An object has its \<^verbatim>\<open>typeof\<close> and \<^verbatim>\<open>Array.isArray\<close> class, a prototype (\<open>None\<close> is
  \<^verbatim>\<open>null\<close>), own data properties, the elements of an array and the extensible flag
  (\<^verbatim>\<open>Object.freeze\<close> and \<^verbatim>\<open>Object.preventExtensions\<close> clear it). Accessor properties
  and proxies are outside the model.
\<close>

record obj =
  kind :: okind
  proto :: "addr option"
  props :: "(key \<times> pdesc) list"
  elems :: "val list"
  extensible :: bool

datatype error = TypeError | InvalidReference | OutOfModel

text \<open>
  The state of the process: the heap, the module's \<^verbatim>\<open>Names\<close> map (line 24; every value
  the module stores in it is an object, the one \<^verbatim>\<open>create()\<close> or \<^verbatim>\<open>complex()\<close> made), and
  the serial number of the next symbol.
\<close>

record state =
  heap :: "obj list"
  names :: "(string \<times> addr) list"
  next_sym :: nat

text \<open>The module's symbols (lines 4 to 7) and the well-known \<^verbatim>\<open>Symbol.toStringTag\<close>.\<close>

definition TypeSignature :: nat where "TypeSignature = 0"
definition TypeReference :: nat where "TypeReference = 1"
definition TypeArguments :: nat where "TypeArguments = 2"
definition CachedType :: nat where "CachedType = 3"
definition toStringTag :: nat where "toStringTag = 4"

text \<open>
  A reference to an address the heap does not hold cannot arise in JavaScript; \<open>obj_at\<close>
  reads such an address as an object with nothing in it that nothing can be added to.
\<close>

definition dangling :: obj where
  "dangling = \<lparr>kind = PlainObject, proto = None, props = [], elems = [], extensible = False\<rparr>"

definition obj_at :: "obj list \<Rightarrow> addr \<Rightarrow> obj" where
  "obj_at h a = (if a < length h then h ! a else dangling)"

definition own_prop :: "obj list \<Rightarrow> addr \<Rightarrow> key \<Rightarrow> pdesc option" where
  "own_prop h a k = map_of (props (obj_at h a)) k"

text \<open>
  The walk up the prototype chain for a property. A prototype chain has no cycle, so it
  visits each object of the heap at most once: the walk is bounded by the number of objects.
\<close>

fun lookup_chain :: "nat \<Rightarrow> obj list \<Rightarrow> addr \<Rightarrow> key \<Rightarrow> pdesc option" where
  "lookup_chain 0 h a k = None"
| "lookup_chain (Suc n) h a k =
     (case own_prop h a k of
        Some p \<Rightarrow> Some p
      | None \<Rightarrow> (case proto (obj_at h a) of None \<Rightarrow> None | Some b \<Rightarrow> lookup_chain n h b k))"

definition find_prop :: "obj list \<Rightarrow> addr \<Rightarrow> key \<Rightarrow> pdesc option" where
  "find_prop h a k = lookup_chain (length h) h a k"

text \<open>
  The one accessor property that the builtins give an object is \<^verbatim>\<open>__proto__\<close> of
  \<^verbatim>\<open>Object.prototype\<close>. Accessors are outside the model, and so is every read of, write to
  and test for that key.
\<close>

definition accessor_key :: "key \<Rightarrow> bool" where
  "accessor_key k = (k = KStr ''__proto__'')"

text \<open>
  \<^verbatim>\<open>v[k]\<close>: a TypeError on \<^verbatim>\<open>null\<close> and \<^verbatim>\<open>undefined\<close>. On another primitive the lookup
  goes to the wrapper's prototype, which holds none of the keys this module reads.
\<close>

fun get :: "obj list \<Rightarrow> val \<Rightarrow> key \<Rightarrow> error + val" where
  "get h Undefined k = Inl TypeError"
| "get h Null k = Inl TypeError"
| "get h (Ref a) k =
     (if accessor_key k then Inl OutOfModel
      else Inr (case find_prop h a k of Some p \<Rightarrow> pvalue p | None \<Rightarrow> Undefined))"
| "get h v k = Inr Undefined"

fun truthy :: "val \<Rightarrow> bool" where
  "truthy Undefined = False"
| "truthy Null = False"
| "truthy (Bool b) = b"
| "truthy (Num n) = (n \<noteq> 0)"
| "truthy (BigInt n) = (n \<noteq> 0)"
| "truthy (Str s) = (s \<noteq> [])"
| "truthy (Sym n) = True"
| "truthy (Ref a) = True"

fun typeof :: "obj list \<Rightarrow> val \<Rightarrow> string" where
  "typeof h Undefined = ''undefined''"
| "typeof h Null = ''object''"
| "typeof h (Bool b) = ''boolean''"
| "typeof h (Num n) = ''number''"
| "typeof h (BigInt n) = ''bigint''"
| "typeof h (Str s) = ''string''"
| "typeof h (Sym n) = ''symbol''"
| "typeof h (Ref a) = (if kind (obj_at h a) = FunctionObject then ''function'' else ''object'')"

text \<open>
  The key of a computed member access \<^verbatim>\<open>scope[sign]\<close>. The module computes keys from
  \<^verbatim>\<open>TypeSignature\<close> values only, which are symbols or \<^verbatim>\<open>undefined\<close>; a number or an object
  as a key is outside the model.
\<close>

fun to_key :: "val \<Rightarrow> key option" where
  "to_key (Sym n) = Some (KSym n)"
| "to_key (Str s) = Some (KStr s)"
| "to_key Undefined = Some (KStr ''undefined'')"
| "to_key Null = Some (KStr ''null'')"
| "to_key (Bool b) = Some (KStr (if b then ''true'' else ''false''))"
| "to_key v = None"

text \<open>
  \<^verbatim>\<open>Reflect.defineProperty(target, k, d)\<close> on an object, for a data descriptor \<open>d\<close> that gives
  all four fields: a new property needs an extensible object; a configurable one is
  replaced; one that is not configurable accepts no change of \<^verbatim>\<open>enumerable\<close>, and when it is
  not writable either, no change at all. A refused definition changes nothing and raises
  nothing (the module never reads the result). \<open>define_own\<close> gives the new own properties.
\<close>

definition define_own :: "bool \<Rightarrow> (key \<times> pdesc) list \<Rightarrow> key \<Rightarrow> pdesc \<Rightarrow> (key \<times> pdesc) list" where
  "define_own ext ps k d =
     (case map_of ps k of
        None \<Rightarrow> if ext then ps @ [(k, d)] else ps
      | Some c \<Rightarrow>
          if configurable c then AList.update k d ps
          else if configurable d \<or> enumerable d \<noteq> enumerable c then ps
          else if writable c
            then AList.update k (c\<lparr>pvalue := pvalue d, writable := writable d\<rparr>) ps
          else ps)"

definition define_property :: "obj list \<Rightarrow> addr \<Rightarrow> key \<Rightarrow> pdesc \<Rightarrow> obj list" where
  "define_property h a k d =
     (let ob = obj_at h a in h[a := ob\<lparr>props := define_own (extensible ob) (props ob) k d\<rparr>])"

text \<open>
  An assignment \<^verbatim>\<open>target[k] = x\<close> in strict code (a module is strict), and each step of
  \<^verbatim>\<open>Object.assign\<close>: an own property is written when writable; a property found up the
  chain that is not writable refuses; otherwise an own property is created, which needs an
  extensible object. A refusal, and an assignment to a primitive, is a TypeError.
  \<open>assign_own\<close> gives the new own properties, from the object and what the chain holds.
\<close>

definition literal_desc :: "val \<Rightarrow> pdesc" where
  "literal_desc x = \<lparr>pvalue = x, writable = True, enumerable = True, configurable = True\<rparr>"

definition assign_own :: "obj \<Rightarrow> pdesc option \<Rightarrow> key \<Rightarrow> val \<Rightarrow> (key \<times> pdesc) list option" where
  "assign_own ob found k x =
     (case map_of (props ob) k of
        Some p \<Rightarrow> if writable p then Some (AList.update k (p\<lparr>pvalue := x\<rparr>) (props ob)) else None
      | None \<Rightarrow>
          if (case found of Some p \<Rightarrow> writable p | None \<Rightarrow> True) \<and> extensible ob
          then Some (props ob @ [(k, literal_desc x)])
          else None)"

fun set_prop :: "obj list \<Rightarrow> val \<Rightarrow> key \<Rightarrow> val \<Rightarrow> error + obj list" where
  "set_prop h (Ref a) k x =
     (if accessor_key k then Inl OutOfModel
      else case assign_own (obj_at h a) (find_prop h a k) k x of
        None \<Rightarrow> Inl TypeError
      | Some ps \<Rightarrow> Inr (h[a := (obj_at h a)\<lparr>props := ps\<rparr>]))"
| "set_prop h v k x = Inl TypeError"

section \<open>Computations: state and exceptions\<close>

text \<open>
  A function of the module takes the state and gives back a value or the error it threw,
  with the state it left. \<open>bindM m f\<close> runs \<open>m\<close> and hands its value to \<open>f\<close>; an error of
  \<open>m\<close> ends the computation.
\<close>

type_synonym 'a M = "state \<Rightarrow> (error + 'a) \<times> state"

definition returnM :: "'a \<Rightarrow> 'a M" where
  "returnM x s = (Inr x, s)"

definition throwM :: "error \<Rightarrow> 'a M" where
  "throwM e s = (Inl e, s)"

fun bind_result :: "(error + 'a) \<times> state \<Rightarrow> ('a \<Rightarrow> 'b M) \<Rightarrow> (error + 'b) \<times> state" where
  "bind_result (Inl e, s) f = (Inl e, s)"
| "bind_result (Inr x, s) f = f x s"

definition bindM :: "'a M \<Rightarrow> ('a \<Rightarrow> 'b M) \<Rightarrow> 'b M" where
  "bindM m f s = bind_result (m s) f"

definition typeofM :: "val \<Rightarrow> string M" where
  "typeofM v s = (Inr (typeof (heap s) v), s)"

definition getM :: "val \<Rightarrow> key \<Rightarrow> val M" where
  "getM v k s = (get (heap s) v k, s)"

definition setM :: "val \<Rightarrow> key \<Rightarrow> val \<Rightarrow> unit M" where
  "setM v k x s =
     (case set_prop (heap s) v k x of
        Inl e \<Rightarrow> (Inl e, s)
      | Inr h \<Rightarrow> (Inr (), s\<lparr>heap := h\<rparr>))"

text \<open>\<^verbatim>\<open>scope[sign]\<close> and \<^verbatim>\<open>scope[sign] = x\<close> with a computed key.\<close>

definition get_computed :: "val \<Rightarrow> val \<Rightarrow> val M" where
  "get_computed v sign =
     (if v = Undefined \<or> v = Null then throwM TypeError
      else case to_key sign of None \<Rightarrow> throwM OutOfModel | Some k \<Rightarrow> getM v k)"

definition set_computed :: "val \<Rightarrow> val \<Rightarrow> val \<Rightarrow> unit M" where
  "set_computed v sign x =
     (if v = Undefined \<or> v = Null then throwM TypeError
      else case to_key sign of None \<Rightarrow> throwM OutOfModel | Some k \<Rightarrow> setM v k x)"

text \<open>
  \<^verbatim>\<open>Reflect.defineProperty\<close>, \<^verbatim>\<open>Reflect.getOwnPropertyDescriptor\<close>, \<^verbatim>\<open>Reflect.getPrototypeOf\<close>
  and \<^verbatim>\<open>Reflect.get\<close> throw a TypeError when the target is not an object, and so does the
  \<^verbatim>\<open>in\<close> operator. \<^verbatim>\<open>Array.isArray\<close> is false on anything but an array.
\<close>

fun Reflect_defineProperty :: "val \<Rightarrow> key \<Rightarrow> pdesc \<Rightarrow> unit M" where
  "Reflect_defineProperty (Ref a) k d s = (Inr (), s\<lparr>heap := define_property (heap s) a k d\<rparr>)"
| "Reflect_defineProperty v k d s = (Inl TypeError, s)"

fun Reflect_getOwnPropertyDescriptor :: "val \<Rightarrow> key \<Rightarrow> pdesc option M" where
  "Reflect_getOwnPropertyDescriptor (Ref a) k s = (Inr (own_prop (heap s) a k), s)"
| "Reflect_getOwnPropertyDescriptor v k s = (Inl TypeError, s)"

fun Reflect_getPrototypeOf :: "val \<Rightarrow> val M" where
  "Reflect_getPrototypeOf (Ref a) s =
     (Inr (case proto (obj_at (heap s) a) of None \<Rightarrow> Null | Some p \<Rightarrow> Ref p), s)"
| "Reflect_getPrototypeOf v s = (Inl TypeError, s)"

fun Reflect_get :: "val \<Rightarrow> key \<Rightarrow> val M" where
  "Reflect_get (Ref a) k = getM (Ref a) k"
| "Reflect_get v k = throwM TypeError"

fun hasProperty :: "key \<Rightarrow> val \<Rightarrow> bool M" where
  "hasProperty k (Ref a) s =
     (if accessor_key k then (Inl OutOfModel, s) else (Inr (find_prop (heap s) a k \<noteq> None), s))"
| "hasProperty k v s = (Inl TypeError, s)"

fun isArray :: "val \<Rightarrow> bool M" where
  "isArray (Ref a) s = (Inr (kind (obj_at (heap s) a) = ArrayObject), s)"
| "isArray v s = (Inr False, s)"

text \<open>
  The descriptor the module passes to every \<^verbatim>\<open>Reflect.defineProperty\<close>: not configurable,
  not enumerable, not writable.
\<close>

definition hidden :: "val \<Rightarrow> pdesc" where
  "hidden x = \<lparr>pvalue = x, writable = False, enumerable = False, configurable = False\<rparr>"

text \<open>The builtin objects the module meets, at fixed addresses.\<close>

definition ObjectPrototype :: addr where "ObjectPrototype = 0"
definition FunctionPrototype :: addr where "FunctionPrototype = 1"
definition ObjectCtor :: addr where "ObjectCtor = 2"
definition FunctionCtor :: addr where "FunctionCtor = 3"
definition ArrayPrototype :: addr where "ArrayPrototype = 4"
definition ArrayCtor :: addr where "ArrayCtor = 5"
definition StringCtor :: addr where "StringCtor = 6"
definition NumberCtor :: addr where "NumberCtor = 7"
definition BooleanCtor :: addr where "BooleanCtor = 8"
definition SymbolCtor :: addr where "SymbolCtor = 9"

text \<open>An object literal \<^verbatim>\<open>{}\<close>, an array, and \<^verbatim>\<open>Symbol()\<close>.\<close>

definition alloc :: "obj \<Rightarrow> addr M" where
  "alloc ob s = (Inr (length (heap s)), s\<lparr>heap := heap s @ [ob]\<rparr>)"

definition plain_object :: obj where
  "plain_object =
     \<lparr>kind = PlainObject, proto = Some ObjectPrototype, props = [], elems = [], extensible = True\<rparr>"

definition new_object :: "addr M" where
  "new_object = alloc plain_object"

definition new_array :: "val list \<Rightarrow> addr M" where
  "new_array xs =
     alloc \<lparr>kind = ArrayObject, proto = Some ArrayPrototype, props = [], elems = xs, extensible = True\<rparr>"

definition new_symbol :: "val M" where
  "new_symbol s = (Inr (Sym (next_sym s)), s\<lparr>next_sym := next_sym s + 1\<rparr>)"

text \<open>
  The module's own objects \<^verbatim>\<open>ComplexMap\<close> (line 25) and \<^verbatim>\<open>PrimitiveNames\<close> (line 9), and
  the constants of \<^verbatim>\<open>primitives.ts\<close>, at the addresses the initialisation of the two
  modules gives them (see \<open>init_state\<close> below). \<^verbatim>\<open>Undefined\<close> and \<^verbatim>\<open>Unknown\<close> are both
  \<^verbatim>\<open>Typing.type("unknown")\<close>, so they are one object. The functions of the module read
  these constants when they are called (lines 215, 223 and 294), after both modules have
  been evaluated.
\<close>

definition ComplexMap :: addr where "ComplexMap = 20"
definition PrimitiveNames :: addr where "PrimitiveNames = 21"
definition Primitives_String :: addr where "Primitives_String = 22"
definition Primitives_Number :: addr where "Primitives_Number = 23"
definition Primitives_Bigint :: addr where "Primitives_Bigint = 24"
definition Primitives_Boolean :: addr where "Primitives_Boolean = 25"
definition Primitives_Undefined :: addr where "Primitives_Undefined = 26"
definition Primitives_Symbol :: addr where "Primitives_Symbol = 27"
definition Primitives_Object :: addr where "Primitives_Object = 28"
definition Primitives_Array :: addr where "Primitives_Array = 29"
definition Primitives_Function :: addr where "Primitives_Function = 30"
definition Primitives_Unknown :: addr where "Primitives_Unknown = 26"
definition Primitives_Type :: addr where "Primitives_Type = 31"
definition Primitives_Void :: addr where "Primitives_Void = 32"

section \<open>The identity kernel, the name registry and the value-type cache\<close>

text \<open>\<^verbatim>\<open>create\<close>, lines 254 to 263.\<close>

definition create :: "addr M" where
  "create =
     bindM new_object (\<lambda>type.
     bindM new_symbol (\<lambda>sign.
     bindM (Reflect_defineProperty (Ref type) (KSym TypeSignature) (hidden sign)) (\<lambda>_.
     returnM type)))"

text \<open>\<^verbatim>\<open>createComplex\<close>, lines 265 to 280.\<close>

definition createComplex :: "val \<Rightarrow> val \<Rightarrow> addr M" where
  "createComplex base args =
     bindM create (\<lambda>complex.
     bindM (Reflect_defineProperty (Ref complex) (KSym TypeReference) (hidden base)) (\<lambda>_.
     bindM (Reflect_defineProperty (Ref complex) (KSym TypeArguments) (hidden args)) (\<lambda>_.
     returnM complex)))"

text \<open>\<^verbatim>\<open>isType\<close>, \<^verbatim>\<open>isTyped\<close>, \<^verbatim>\<open>isClass\<close> and \<^verbatim>\<open>isPrototype\<close>, lines 238 to 252.\<close>

definition isType :: "val \<Rightarrow> bool M" where
  "isType v =
     bindM (typeofM v) (\<lambda>p.
     if p = ''object'' then bindM (getM v (KSym TypeSignature)) (\<lambda>x. returnM (truthy x))
     else returnM False)"

definition isTyped :: "val \<Rightarrow> bool M" where
  "isTyped v =
     bindM (typeofM v) (\<lambda>p.
     if p = ''object'' then bindM (getM v (KStr ''Type'')) isType
     else returnM False)"

definition isClass :: "val \<Rightarrow> bool M" where
  "isClass v = bindM (typeofM v) (\<lambda>p. returnM (p = ''function''))"

text \<open>
  \<^verbatim>\<open>Object.getOwnPropertyNames(v).includes("constructor")\<close>: whether \<open>v\<close> has an own property
  of that name; a TypeError on \<^verbatim>\<open>null\<close>.
\<close>

definition isPrototype :: "val \<Rightarrow> bool M" where
  "isPrototype v =
     bindM (typeofM v) (\<lambda>p.
     if p = ''object''
     then bindM (Reflect_getOwnPropertyDescriptor v (KStr ''constructor'')) (\<lambda>d. returnM (d \<noteq> None))
     else returnM False)"

text \<open>\<^verbatim>\<open>baseType\<close>, \<^verbatim>\<open>typeArguments\<close>, \<^verbatim>\<open>compare\<close>, \<^verbatim>\<open>nameOf\<close> and \<^verbatim>\<open>hashOf\<close>.\<close>

definition baseType :: "val \<Rightarrow> val M" where
  "baseType type = bindM (getM type (KSym TypeReference)) (\<lambda>r. returnM (if truthy r then r else type))"

definition typeArguments :: "val \<Rightarrow> val M" where
  "typeArguments type = Reflect_get type (KSym TypeArguments)"

definition nameOf :: "val \<Rightarrow> val M" where
  "nameOf v = Reflect_get v (KSym toStringTag)"

definition hashOf :: "val \<Rightarrow> val M" where
  "hashOf v = Reflect_get v (KSym TypeSignature)"

definition compare :: "val \<Rightarrow> val \<Rightarrow> bool M" where
  "compare l r = bindM (hashOf l) (\<lambda>hl. bindM (hashOf r) (\<lambda>hr. returnM (hl = hr)))"

text \<open>\<^verbatim>\<open>store\<close> and \<^verbatim>\<open>restore\<close>, lines 128 to 147. \<^verbatim>\<open>restore\<close> gives \<open>Undefined\<close> for nothing.\<close>

definition store :: "val \<Rightarrow> val \<Rightarrow> unit M" where
  "store v t =
     bindM (typeofM v) (\<lambda>p.
     if p = ''object'' \<or> p = ''function''
     then Reflect_defineProperty v (KSym CachedType) (hidden t)
     else returnM ())"

definition restore :: "val \<Rightarrow> val M" where
  "restore v =
     bindM (typeofM v) (\<lambda>p.
     if p = ''object'' \<or> p = ''function''
     then bindM (Reflect_getOwnPropertyDescriptor v (KSym CachedType))
            (\<lambda>descr. returnM (case descr of Some d \<Rightarrow> pvalue d | None \<Rightarrow> Undefined))
     else returnM Undefined)"

text \<open>\<^verbatim>\<open>named\<close>, lines 149 to 162. A value of \<^verbatim>\<open>Names\<close> is an object, so it is truthy.\<close>

definition Names_get :: "string \<Rightarrow> addr option M" where
  "Names_get name s = (Inr (map_of (names s) name), s)"

definition Names_set :: "string \<Rightarrow> addr \<Rightarrow> unit M" where
  "Names_set name type s = (Inr (), s\<lparr>names := AList.update name type (names s)\<rparr>)"

definition named :: "string \<Rightarrow> addr M" where
  "named name =
     bindM (Names_get name) (\<lambda>found.
     case found of
       Some type \<Rightarrow> returnM type
     | None \<Rightarrow>
         bindM create (\<lambda>type.
         bindM (Reflect_defineProperty (Ref type) (KSym toStringTag) (hidden (Str name))) (\<lambda>_.
         bindM (Names_set name type) (\<lambda>_.
         returnM type))))"

section \<open>The resolver\<close>

text \<open>\<^verbatim>\<open>extractName\<close>, lines 336 to 343.\<close>

definition extractName :: "val \<Rightarrow> val M" where
  "extractName v =
     bindM (typeofM v) (\<lambda>p.
     bindM (if p = ''object''
            then bindM (hasProperty (KStr ''constructor'') v)
                   (\<lambda>b. if b then getM v (KStr ''constructor'') else returnM v)
            else returnM v) (\<lambda>v.
     bindM (typeofM v) (\<lambda>p.
     if p = ''function'' then getM v (KStr ''name'') else returnM Undefined)))"

text \<open>
  \<^verbatim>\<open>getClassType\<close>, lines 304 to 312. A name that is truthy and not a string (a class with
  a static member \<^verbatim>\<open>name\<close>) would be a key of \<^verbatim>\<open>Names\<close> that is not a string: outside the
  model.
\<close>

definition getClassType :: "val \<Rightarrow> val M" where
  "getClassType v =
     bindM (restore v) (\<lambda>type.
     if \<not> truthy type then
       bindM (extractName v) (\<lambda>name.
       bindM (if truthy name
              then (case name of
                      Str n \<Rightarrow> bindM (named n) (\<lambda>t. returnM (Ref t))
                    | _ \<Rightarrow> throwM OutOfModel)
              else bindM create (\<lambda>t. returnM (Ref t))) (\<lambda>type.
       bindM (store v type) (\<lambda>_.
       returnM type)))
     else returnM type)"

text \<open>\<^verbatim>\<open>getPrototypeType\<close>, \<^verbatim>\<open>getInstanceType\<close> and \<^verbatim>\<open>getObjectType\<close>, lines 283 to 302.\<close>

definition getPrototypeType :: "val \<Rightarrow> val M" where
  "getPrototypeType v = bindM (getM v (KStr ''constructor'')) getClassType"

definition getInstanceType :: "val \<Rightarrow> val M" where
  "getInstanceType v =
     bindM (restore v) (\<lambda>type.
     if \<not> truthy type then
       bindM (Reflect_getPrototypeOf v) (\<lambda>proto.
       bindM (if proto \<noteq> Ref ObjectPrototype then getPrototypeType proto
              else returnM (Ref Primitives_Object)) (\<lambda>type.
       bindM (store v type) (\<lambda>_.
       returnM type)))
     else returnM type)"

definition getObjectType :: "val \<Rightarrow> val M" where
  "getObjectType v = bindM (isPrototype v) (\<lambda>b. if b then getPrototypeType v else getInstanceType v)"

text \<open>\<^verbatim>\<open>getPrimitiveType\<close>, lines 314 to 334.\<close>

definition getPrimitiveType :: "val \<Rightarrow> string M" where
  "getPrimitiveType v =
     bindM (isArray v) (\<lambda>b.
     if b then returnM ''array''
     else if v = Ref StringCtor then returnM ''string''
     else if v = Ref NumberCtor then returnM ''number''
     else if v = Ref BooleanCtor then returnM ''boolean''
     else if v = Ref SymbolCtor then returnM ''symbol''
     else if v = Ref ObjectCtor then returnM ''object''
     else if v = Ref FunctionCtor then returnM ''function''
     else typeofM v)"

text \<open>\<^verbatim>\<open>typeOf\<close>, lines 213 to 224.\<close>

definition typeOf :: "val \<Rightarrow> val M" where
  "typeOf v =
     bindM (isType v) (\<lambda>b.
     if b then returnM (Ref Primitives_Type)
     else bindM (typeofM v) (\<lambda>p.
       if p = ''object''
       then bindM (restore v) (\<lambda>r. if truthy r then returnM r else getObjectType v)
       else if p = ''function''
       then bindM (restore v) (\<lambda>r. if truthy r then returnM r else getClassType v)
       else bindM (getPrimitiveType v) (\<lambda>n.
            bindM (getM (Ref PrimitiveNames) (KStr n)) (\<lambda>t.
            returnM (if truthy t then t else Ref Primitives_Unknown)))))"

section \<open>The interner and the parser\<close>

primrec mapM :: "('a \<Rightarrow> 'b M) \<Rightarrow> 'a list \<Rightarrow> 'b list M" where
  "mapM f [] = returnM []"
| "mapM f (x # xs) = bindM (f x) (\<lambda>y. bindM (mapM f xs) (\<lambda>ys. returnM (y # ys)))"

text \<open>
  The conversion of a value to a string, in a template literal and (\<open>in_join\<close>) in
  \<^verbatim>\<open>Array.prototype.join\<close>, which writes \<^verbatim>\<open>undefined\<close> and \<^verbatim>\<open>null\<close> as the empty string.
  A symbol has no conversion (a TypeError). The module stores only strings under
  \<^verbatim>\<open>Symbol.toStringTag\<close>; the conversion of a number or an object is outside the model.
\<close>

fun to_string :: "bool \<Rightarrow> val \<Rightarrow> string M" where
  "to_string in_join (Str x) = returnM x"
| "to_string in_join Undefined = returnM (if in_join then [] else ''undefined'')"
| "to_string in_join Null = returnM (if in_join then [] else ''null'')"
| "to_string in_join (Bool b) = returnM (if b then ''true'' else ''false'')"
| "to_string in_join (Sym n) = throwM TypeError"
| "to_string in_join v = throwM OutOfModel"

fun join :: "string list \<Rightarrow> string" where
  "join [] = []"
| "join [x] = x"
| "join (x # y # ys) = x @ '', '' @ join (y # ys)"

text \<open>
  Lines 178 and 179 of \<^verbatim>\<open>parse\<close>: the key of the base type (an empty module is falsy) and
  \<^verbatim>\<open>Object.assign(result, { module, path })\<close>, which assigns both, \<^verbatim>\<open>module\<close> first.
\<close>

definition name_key :: "string option \<Rightarrow> string \<Rightarrow> string" where
  "name_key module path =
     (case module of
        Some m \<Rightarrow> if m \<noteq> [] then m @ ''::'' @ path else path
      | None \<Rightarrow> path)"

definition assign_module_path :: "val \<Rightarrow> string option \<Rightarrow> string \<Rightarrow> unit M" where
  "assign_module_path result module path =
     bindM (setM result (KStr ''module'') (case module of Some m \<Rightarrow> Str m | None \<Rightarrow> Undefined)) (\<lambda>_.
     setM result (KStr ''path'') (Str path))"

definition parse_named :: "string option \<Rightarrow> string \<Rightarrow> addr M" where
  "parse_named module path =
     bindM (named (name_key module path)) (\<lambda>result.
     bindM (assign_module_path (Ref result) module path) (\<lambda>_.
     returnM result))"

text \<open>
  Lines 198 to 208 of \<^verbatim>\<open>parse\<close>, after \<^verbatim>\<open>complex\<close> has returned \<open>type\<close>: the display name
  from the display names of the base and the arguments, set on the result and registered
  as a key of \<^verbatim>\<open>Names\<close>. \<^verbatim>\<open>.map\<close> is a TypeError on anything but an array.
\<close>

fun array_elems :: "val \<Rightarrow> val list M" where
  "array_elems (Ref a) s =
     (if kind (obj_at (heap s) a) = ArrayObject then (Inr (elems (obj_at (heap s) a)), s)
      else (Inl TypeError, s))"
| "array_elems v s = (Inl TypeError, s)"

fun Names_set_val :: "string \<Rightarrow> val \<Rightarrow> unit M" where
  "Names_set_val name (Ref t) = Names_set name t"
| "Names_set_val name v = throwM OutOfModel"

definition parse_alias :: "val \<Rightarrow> string option \<Rightarrow> string \<Rightarrow> val M" where
  "parse_alias type module path =
     bindM (getM type (KSym TypeArguments)) (\<lambda>args.
     bindM (array_elems args) (\<lambda>xs.
     bindM (mapM (\<lambda>arg. getM arg (KSym toStringTag)) xs) (\<lambda>tags.
     bindM (mapM (to_string True) tags) (\<lambda>pieces.
     bindM (getM type (KSym TypeReference)) (\<lambda>base.
     bindM (getM base (KSym toStringTag)) (\<lambda>tag.
     bindM (to_string False tag) (\<lambda>baseName.
     bindM (returnM (baseName @ ''<'' @ join pieces @ ''>'')) (\<lambda>name.
     bindM (Reflect_defineProperty type (KSym toStringTag) (hidden (Str name))) (\<lambda>_.
     bindM (Names_set_val name type) (\<lambda>_.
     bindM (assign_module_path type module path) (\<lambda>_.
     returnM type)))))))))))"

text \<open>
  The object literal \<^verbatim>\<open>{ [sign]: x }\<close> of lines 105 to 107: a new object with one own
  property, under the computed key.
\<close>

definition object_literal :: "val \<Rightarrow> val \<Rightarrow> addr M" where
  "object_literal sign x =
     (case to_key sign of
        None \<Rightarrow> throwM OutOfModel
      | Some k \<Rightarrow> alloc (plain_object\<lparr>props := [(k, literal_desc x)]\<rparr>))"

text \<open>
  The loop of \<^verbatim>\<open>complex\<close>, lines 100 to 115, over the path without its last element; it
  gives the scope the loop ends in.
\<close>

primrec complex_walk :: "val list \<Rightarrow> val \<Rightarrow> val M" where
  "complex_walk [] scope = returnM scope"
| "complex_walk (ty # path) scope =
     bindM (getM ty (KSym TypeSignature)) (\<lambda>tySign.
     bindM (get_computed scope tySign) (\<lambda>elem.
     bindM (isType elem) (\<lambda>b.
     bindM (if b
            then bindM (getM elem (KSym TypeSignature)) (\<lambda>elemSign.
                 bindM (object_literal elemSign elem) (\<lambda>m.
                 bindM (set_computed scope tySign (Ref m)) (\<lambda>_.
                 returnM (Ref m))))
            else returnM elem) (\<lambda>elem.
     bindM (typeofM elem) (\<lambda>p.
     bindM (if p = ''undefined''
            then bindM new_object (\<lambda>m.
                 bindM (set_computed scope tySign (Ref m)) (\<lambda>_.
                 returnM (Ref m)))
            else returnM elem) (\<lambda>elem.
     complex_walk path elem))))))"

text \<open>
  \<^verbatim>\<open>complex\<close> from line 96 on, with the base and the arguments resolved. \<^verbatim>\<open>args\<close> is the
  array that \<^verbatim>\<open>typeArguments.map\<close> made; \<^verbatim>\<open>path.pop()\<close> takes the last element of the path.
\<close>

definition intern :: "val \<Rightarrow> val list \<Rightarrow> val M" where
  "intern first args =
     bindM (new_array args) (\<lambda>argsArray.
     bindM (getM (last (first # args)) (KSym TypeSignature)) (\<lambda>lastSign.
     bindM (complex_walk (butlast (first # args)) (Ref ComplexMap)) (\<lambda>scope.
     bindM (get_computed scope lastSign) (\<lambda>elem.
     bindM (isType elem) (\<lambda>b.
     if b then returnM elem
     else bindM (typeofM elem) (\<lambda>p.
       if p = ''undefined''
       then bindM (createComplex first (Ref argsArray)) (\<lambda>t.
            bindM (set_computed scope lastSign (Ref t)) (\<lambda>_.
            returnM (Ref t)))
       else bindM (createComplex first (Ref argsArray)) (\<lambda>t. returnM (Ref t))))))))"

text \<open>
  Line 86 of \<^verbatim>\<open>type\<close>: the error, whose message converts the reference to a string. That
  conversion is itself a TypeError for a symbol and for an object with no callable
  \<^verbatim>\<open>toString\<close> or \<^verbatim>\<open>valueOf\<close> (one with a \<^verbatim>\<open>null\<close> prototype); a conversion method an
  object has is taken to return a string, as the builtin one of a plain object or a function
  does. The conversion of an array, which converts its elements, is outside the model.
\<close>

fun invalid_reference :: "val \<Rightarrow> val M" where
  "invalid_reference (Sym n) = throwM TypeError"
| "invalid_reference (Ref a) =
     bindM (isArray (Ref a)) (\<lambda>b.
     if b then throwM OutOfModel
     else bindM (getM (Ref a) (KStr ''toString'')) (\<lambda>f.
          bindM (typeofM f) (\<lambda>pf.
          bindM (getM (Ref a) (KStr ''valueOf'')) (\<lambda>g.
          bindM (typeofM g) (\<lambda>pg.
          if pf = ''function'' \<or> pg = ''function'' then throwM InvalidReference
          else throwM TypeError)))))"
| "invalid_reference v = throwM InvalidReference"

text \<open>\<^verbatim>\<open>type\<close> from line 77 on, for a reference that is not a string.\<close>

definition type_other :: "val \<Rightarrow> val M" where
  "type_other ref =
     bindM (isTyped ref) (\<lambda>b.
     if b then getM ref (KStr ''Type'')
     else bindM (isType ref) (\<lambda>b.
          if b then returnM ref
          else bindM (isClass ref) (\<lambda>b.
               if b then getClassType ref
               else invalid_reference ref)))"

text \<open>
  \<^verbatim>\<open>parse\<close> (lines 164 to 211), \<^verbatim>\<open>complex\<close> (lines 89 to 126) and \<^verbatim>\<open>type\<close> (lines 73 to
  87) call each other: \<^verbatim>\<open>parse\<close> interns with \<^verbatim>\<open>complex\<close>, which resolves its base and each
  argument with \<^verbatim>\<open>type\<close> (\<open>type_args\<close> is its \<^verbatim>\<open>typeArguments.map\<close>, over the parameter
  written \<open>targs\<close>), which parses a string. The recursion ends because \<^verbatim>\<open>parse\<close> hands
  \<^verbatim>\<open>complex\<close> an object as the base and, as arguments, strings shorter than its own.
\<close>

function parse :: "string \<Rightarrow> val M"
  and complex :: "val \<Rightarrow> val list \<Rightarrow> val M"
  and type :: "val \<Rightarrow> val M"
  and type_args :: "val list \<Rightarrow> val list M"
where
  "parse name =
     bindM (Names_get name) (\<lambda>found.
     case found of
       Some t \<Rightarrow> returnM (Ref t)
     | None \<Rightarrow>
         bindM (getM (Ref PrimitiveNames) (KStr name)) (\<lambda>prim.
         if truthy prim then returnM prim
         else
           (case split_name name of
              (module, path, typeParams) \<Rightarrow>
                bindM (parse_named module path) (\<lambda>result.
                case typeParams of
                  None \<Rightarrow> returnM (Ref result)
                | Some tp \<Rightarrow>
                    if tp = [] then returnM (Ref result)
                    else
                      bindM (complex (Ref result) (map Str (split_params tp))) (\<lambda>type.
                      parse_alias type module path)))))"
| "complex base targs =
     bindM (type base) (\<lambda>t.
     bindM (baseType t) (\<lambda>first.
     bindM (type_args targs) (\<lambda>args.
     intern first args)))"
| "type (Str name) = parse name"
| "type Undefined = type_other Undefined"
| "type Null = type_other Null"
| "type (Bool b) = type_other (Bool b)"
| "type (Num n) = type_other (Num n)"
| "type (BigInt n) = type_other (BigInt n)"
| "type (Sym n) = type_other (Sym n)"
| "type (Ref a) = type_other (Ref a)"
| "type_args [] = returnM []"
| "type_args (arg # rest) =
     bindM (type arg) (\<lambda>t.
     bindM (type_args rest) (\<lambda>ts.
     returnM (t # ts)))"
  by pat_completeness auto

section \<open>Registration\<close>

text \<open>\<^verbatim>\<open>registerClass\<close> and the decorator that \<^verbatim>\<open>register(name)\<close> returns, lines 50 to 62.\<close>

definition registerClass :: "string \<Rightarrow> val \<Rightarrow> unit M" where
  "registerClass name object =
     bindM (parse name) (\<lambda>type.
     bindM (setM type (KStr ''constructor'') object) (\<lambda>_.
     store object type))"

definition register :: "string \<Rightarrow> val \<Rightarrow> unit M" where
  "register name target =
     bindM (isClass target) (\<lambda>b. if b then registerClass name target else returnM ())"

section \<open>The state after the modules have loaded\<close>

text \<open>
  The primitive table as the source writes it (lines 10 to 21): each key with the constant
  of \<^verbatim>\<open>primitives.ts\<close> it names.
\<close>

definition primitive_table :: "(string \<times> addr) list" where
  "primitive_table =
     [(''string'', Primitives_String),
      (''number'', Primitives_Number),
      (''bigint'', Primitives_Bigint),
      (''boolean'', Primitives_Boolean),
      (''undefined'', Primitives_Undefined),
      (''symbol'', Primitives_Symbol),
      (''array'', Primitives_Array),
      (''object'', Primitives_Object),
      (''function'', Primitives_Function),
      (''unknown'', Primitives_Unknown),
      (''type'', Primitives_Type),
      (''void'', Primitives_Void)]"

text \<open>
  The two modules import each other. The body of the registry runs lines 4 to 25 in order:
  its object literal \<^verbatim>\<open>PrimitiveNames\<close> (lines 9 to 22) reads the twelve constants of
  \<^verbatim>\<open>primitives.ts\<close> before \<^verbatim>\<open>Names\<close> (line 24) exists. No initialiser of
  \<^verbatim>\<open>primitives.ts\<close> can have run by then, for each is a call of \<^verbatim>\<open>Typing.type\<close> on a
  string, which reaches \<^verbatim>\<open>Names.has\<close> (line 165). So a load that completes is one in which
  the literal has read every constant as \<^verbatim>\<open>undefined\<close> and the initialisers of
  \<^verbatim>\<open>primitives.ts\<close> (its lines 4 to 15) have run after line 25; nothing writes to
  \<^verbatim>\<open>PrimitiveNames\<close> later. \<open>primitive_names_literal\<close> is that object: every key of the
  table, each holding \<^verbatim>\<open>undefined\<close>.
\<close>

definition primitive_names_literal :: obj where
  "primitive_names_literal =
     plain_object\<lparr>props := map (\<lambda>(p, t). (KStr p, literal_desc Undefined)) primitive_table\<rparr>"

text \<open>
  The builtin objects, with the properties the module can reach: \<^verbatim>\<open>Object.prototype\<close> and
  its methods (its accessor \<^verbatim>\<open>__proto__\<close> is the \<open>accessor_key\<close> above),
  \<^verbatim>\<open>Function.prototype\<close>, \<^verbatim>\<open>Array.prototype\<close>, and the global constructors that
  \<^verbatim>\<open>getPrimitiveType\<close> names. Behind them the module's \<^verbatim>\<open>ComplexMap\<close>, an empty object
  literal, and \<^verbatim>\<open>PrimitiveNames\<close>.
\<close>

definition method_desc :: "val \<Rightarrow> pdesc" where
  "method_desc x = \<lparr>pvalue = x, writable = True, enumerable = False, configurable = True\<rparr>"

definition builtin_function :: "string \<Rightarrow> (key \<times> pdesc) list \<Rightarrow> obj" where
  "builtin_function name others =
     \<lparr>kind = FunctionObject, proto = Some FunctionPrototype,
      props = (KStr ''name'',
               \<lparr>pvalue = Str name, writable = False, enumerable = False, configurable = True\<rparr>) # others,
      elems = [], extensible = True\<rparr>"

definition boot_heap :: "obj list" where
  "boot_heap =
     [\<lparr>kind = PlainObject, proto = None,
       props = [(KStr ''constructor'', method_desc (Ref ObjectCtor)),
                (KStr ''toString'', method_desc (Ref 10)),
                (KStr ''valueOf'', method_desc (Ref 11)),
                (KStr ''hasOwnProperty'', method_desc (Ref 12)),
                (KStr ''isPrototypeOf'', method_desc (Ref 13)),
                (KStr ''propertyIsEnumerable'', method_desc (Ref 14)),
                (KStr ''toLocaleString'', method_desc (Ref 15)),
                (KStr ''__defineGetter__'', method_desc (Ref 16)),
                (KStr ''__defineSetter__'', method_desc (Ref 17)),
                (KStr ''__lookupGetter__'', method_desc (Ref 18)),
                (KStr ''__lookupSetter__'', method_desc (Ref 19))],
       elems = [], extensible = True\<rparr>,
      \<lparr>kind = FunctionObject, proto = Some ObjectPrototype,
       props = [(KStr ''name'',
                 \<lparr>pvalue = Str [], writable = False, enumerable = False, configurable = True\<rparr>),
                (KStr ''constructor'', method_desc (Ref FunctionCtor))],
       elems = [], extensible = True\<rparr>,
      builtin_function ''Object'' [(KStr ''prototype'', hidden (Ref ObjectPrototype))],
      builtin_function ''Function'' [(KStr ''prototype'', hidden (Ref FunctionPrototype))],
      \<lparr>kind = ArrayObject, proto = Some ObjectPrototype,
       props = [(KStr ''constructor'', method_desc (Ref ArrayCtor))],
       elems = [], extensible = True\<rparr>,
      builtin_function ''Array'' [(KStr ''prototype'', hidden (Ref ArrayPrototype))],
      builtin_function ''String'' [],
      builtin_function ''Number'' [],
      builtin_function ''Boolean'' [],
      builtin_function ''Symbol'' [],
      builtin_function ''toString'' [],
      builtin_function ''valueOf'' [],
      builtin_function ''hasOwnProperty'' [],
      builtin_function ''isPrototypeOf'' [],
      builtin_function ''propertyIsEnumerable'' [],
      builtin_function ''toLocaleString'' [],
      builtin_function ''__defineGetter__'' [],
      builtin_function ''__defineSetter__'' [],
      builtin_function ''__lookupGetter__'' [],
      builtin_function ''__lookupSetter__'' [],
      plain_object,
      primitive_names_literal]"

text \<open>The state when line 25 of the registry has run.\<close>

definition boot :: state where
  "boot = \<lparr>heap = boot_heap, names = [], next_sym = 5\<rparr>"

text \<open>
  \<^verbatim>\<open>primitives.ts\<close> then binds each of its constants to \<^verbatim>\<open>Typing.type\<close> of a name, in the
  order of its lines 4 to 15. The state this leaves is the one in which callers meet the
  module.
\<close>

definition load_primitives :: "val list M" where
  "load_primitives =
     mapM type
       [Str ''String'', Str ''Number'', Str ''Bigint'', Str ''Boolean'', Str ''unknown'',
        Str ''Symbol'', Str ''Object'', Str ''Array'', Str ''Function'', Str ''unknown'',
        Str ''Type'', Str ''void'']"

definition init_state :: state where
  "init_state = snd (load_primitives boot)"

section \<open>Caller code\<close>

text \<open>
  What a caller of the module does, for the scenarios below. A class declaration
  \<^verbatim>\<open>class C {}\<close> makes a function object that carries its name and a prototype object whose
  \<^verbatim>\<open>constructor\<close> is the class; \<^verbatim>\<open>new C()\<close> makes an object whose prototype is
  \<^verbatim>\<open>C.prototype\<close>; \<^verbatim>\<open>Object.preventExtensions(v)\<close> makes an object not extensible and
  leaves any other value alone; \<^verbatim>\<open>Object.freeze({})\<close> makes an object that is not extensible.
\<close>

definition declare_class :: "string \<Rightarrow> addr M" where
  "declare_class name =
     bindM (alloc (builtin_function name [])) (\<lambda>f.
     bindM (alloc (plain_object\<lparr>props := [(KStr ''constructor'', method_desc (Ref f))]\<rparr>)) (\<lambda>p.
     bindM (Reflect_defineProperty (Ref f) (KStr ''prototype'') (hidden (Ref p))) (\<lambda>_.
     returnM f)))"

fun instance_of :: "val \<Rightarrow> obj" where
  "instance_of (Ref p) = plain_object\<lparr>proto := Some p\<rparr>"
| "instance_of v = plain_object"

definition new_instance :: "val \<Rightarrow> addr M" where
  "new_instance f = bindM (getM f (KStr ''prototype'')) (\<lambda>p. alloc (instance_of p))"

fun prevent_extensions :: "val \<Rightarrow> unit M" where
  "prevent_extensions (Ref a) s =
     (Inr (), s\<lparr>heap := (heap s)[a := (obj_at (heap s) a)\<lparr>extensible := False\<rparr>]\<rparr>)"
| "prevent_extensions v s = (Inr (), s)"

definition frozen_object :: "addr M" where
  "frozen_object = alloc (plain_object\<lparr>extensible := False\<rparr>)"

definition null_prototype_object :: "addr M" where
  "null_prototype_object = alloc (plain_object\<lparr>proto := None\<rparr>)"

text \<open>
  The states of the scenarios below, each reached from the loaded state by caller code and
  calls of the module: after \<^verbatim>\<open>const o = {}\<close>; after two declarations of a class named
  \<^verbatim>\<open>Foo\<close> (in two scopes, at addresses 33 and 35); after one such declaration, after
  \<^verbatim>\<open>register("Foo")\<close> has been applied to that class, and after \<^verbatim>\<open>new Foo()\<close> then; after
  the declaration of a class named \<^verbatim>\<open>string\<close> and \<^verbatim>\<open>typeOf\<close> of that class.
\<close>

definition fresh_object_state :: state where
  "fresh_object_state = snd (new_object init_state)"

definition two_classes_state :: state where
  "two_classes_state = snd (bindM (declare_class ''Foo'') (\<lambda>f. declare_class ''Foo'') init_state)"

definition class_state :: state where
  "class_state = snd (declare_class ''Foo'' init_state)"

definition registered_state :: state where
  "registered_state = snd (register ''Foo'' (Ref 33) class_state)"

definition instance_state :: state where
  "instance_state = snd (new_instance (Ref 33) registered_state)"

definition shadowed_state :: state where
  "shadowed_state = snd (bindM (declare_class ''string'') (\<lambda>f. typeOf (Ref f)) init_state)"

section \<open>Termination of the parser\<close>

text \<open>
  The size of a reference is that of the string it is, if it is one: \<^verbatim>\<open>type\<close> parses no
  other reference.
\<close>

definition ref_size :: "val \<Rightarrow> nat" where
  "ref_size v = (case v of Str n \<Rightarrow> Suc (length n) | _ \<Rightarrow> 0)"

definition refs_size :: "val list \<Rightarrow> nat" where
  "refs_size vs = foldr (\<lambda>v m. max (ref_size v) m) vs 0"

text \<open>
  A parameter is a piece of the parameter list, which is a proper part of the name: every
  string that \<^verbatim>\<open>parse\<close> passes on is shorter than the one it was given.
\<close>

lemma length_trim: "length (trim s) \<le> length s"
proof -
  have "length (dropWhile is_white_space (rev (dropWhile is_white_space s)))
        \<le> length (rev (dropWhile is_white_space s))"
    by (rule length_dropWhile_le)
  also have "\<dots> \<le> length s"
    by (simp add: length_dropWhile_le)
  finally show ?thesis by (simp add: trim_def)
qed

lemma split_params_loop_length:
  "p \<in> set (split_params_loop intent cur cs) \<Longrightarrow> length p \<le> length cur + length cs"
proof (induction cs arbitrary: intent cur)
  case Nil
  then show ?case using length_trim [of "rev cur"] by simp
next
  case (Cons c cs)
  show ?case
  proof (cases "c = CHR '','' \<and> intent = 0 \<and> c \<noteq> CHR ''<'' \<and> c \<noteq> CHR ''>''")
    case True
    with Cons.prems have "p = trim (rev cur) \<or> p \<in> set (split_params_loop intent [] cs)"
      by auto
    then show ?thesis
    proof
      assume "p = trim (rev cur)"
      then show ?thesis using length_trim [of "rev cur"] by simp
    next
      assume "p \<in> set (split_params_loop intent [] cs)"
      from Cons.IH [OF this] show ?thesis by simp
    qed
  next
    case False
    with Cons.prems have "p \<in> set (split_params_loop (intent + 1) (c # cur) cs)
        \<or> p \<in> set (split_params_loop (intent - 1) (c # cur) cs)
        \<or> p \<in> set (split_params_loop intent (c # cur) cs)"
      by (auto split: if_splits)
    then show ?thesis using Cons.IH [of _ "c # cur"] by auto
  qed
qed

lemma split_params_length: "p \<in> set (split_params tp) \<Longrightarrow> length p \<le> length tp"
  using split_params_loop_length [of p 0 "[]" tp] by (simp add: split_params_def)

lemma match_generic_length: "match_generic fqn = Some (p, q) \<Longrightarrow> length q < length fqn"
proof -
  assume m: "match_generic fqn = Some (p, q)"
  then have ne: "fqn \<noteq> []" and q: "q = rev (takeWhile (\<lambda>c. c \<noteq> CHR ''<'') (rev (butlast fqn)))"
    by (auto simp: match_generic_def Let_def split: if_splits)
  have "length q \<le> length (butlast fqn)"
    unfolding q using length_takeWhile_le [of _ "rev (butlast fqn)"] by simp
  with ne show ?thesis by (cases fqn rule: rev_cases) auto
qed

lemma split_colons_length:
  "p \<in> set (split_colons acc cs) \<Longrightarrow> length p \<le> length acc + length cs"
  by (induction acc cs rule: split_colons.induct) (auto split: if_splits)

lemma split_module_length: "split_module name = (m, fqn) \<Longrightarrow> length fqn \<le> length name"
proof -
  assume a: "split_module name = (m, fqn)"
  have sub: "set (split2 name) \<subseteq> set (split_colons [] name)"
    unfolding split2_def by (rule set_take_subset)
  have "fqn \<in> set (split2 name) \<or> fqn = []"
    using a by (auto simp: split_module_def split: list.splits if_splits)
  then show ?thesis
  proof
    assume "fqn \<in> set (split2 name)"
    with sub have "fqn \<in> set (split_colons [] name)" by blast
    from split_colons_length [OF this] show ?thesis by simp
  qed simp
qed

lemma split_name_length:
  "split_name name = (module, path, Some tp) \<Longrightarrow> length tp < length name"
proof -
  assume a: "split_name name = (module, path, Some tp)"
  obtain m fqn where sm: "split_module name = (m, fqn)" by (cases "split_module name")
  with a have "match_generic fqn = Some (path, tp)"
    by (auto simp: split_name_def split: option.splits)
  from match_generic_length [OF this] split_module_length [OF sm] show ?thesis by simp
qed

lemma refs_size_params:
  "(\<And>p. p \<in> set ps \<Longrightarrow> length p < n) \<Longrightarrow> refs_size (map Str ps) < Suc n"
  by (induction ps) (auto simp: refs_size_def ref_size_def)

lemma refs_size_split_params:
  "split_name name = (module, path, Some tp) \<Longrightarrow> refs_size (map Str (split_params tp)) < Suc (length name)"
proof (rule refs_size_params)
  fix p
  assume "split_name name = (module, path, Some tp)" and "p \<in> set (split_params tp)"
  then show "length p < length name"
    using split_name_length split_params_length by fastforce
qed

termination parse
proof (relation "measures
    [\<lambda>x. case x of
        Inl (Inl name) \<Rightarrow> Suc (length name)
      | Inl (Inr (base, targs)) \<Rightarrow> max (ref_size base) (refs_size targs)
      | Inr (Inl ref) \<Rightarrow> ref_size ref
      | Inr (Inr args) \<Rightarrow> refs_size args,
     \<lambda>x. case x of
        Inl (Inl name) \<Rightarrow> 0
      | Inl (Inr (base, targs)) \<Rightarrow> 3 + length targs
      | Inr (Inl ref) \<Rightarrow> 1
      | Inr (Inr args) \<Rightarrow> 2 + length args]", goal_cases)
  case 1
  show ?case by simp
next
  case 2
  then show ?case
    by (auto simp: ref_size_def intro: refs_size_split_params [OF sym])
next
  case 3
  show ?case by (auto simp: max_def)
next
  case 4
  then show ?case by (auto simp: max_def)
next
  case 5
  then show ?case by (auto simp: ref_size_def)
next
  case 6
  then show ?case by (auto simp: refs_size_def max_def)
next
  case 7
  then show ?case by (auto simp: refs_size_def max_def)
qed

declare parse.simps [simp del] complex.simps [simp del] type.simps [simp del]

section \<open>The initial state\<close>

text \<open>
  Loading \<^verbatim>\<open>primitives.ts\<close> gives its constants the addresses fixed above and registers
  their names; \<^verbatim>\<open>PrimitiveNames\<close> holds \<^verbatim>\<open>undefined\<close> under every key of the primitive
  table.
\<close>

lemma load_primitives_boot:
  "fst (load_primitives boot) =
     Inr [Ref Primitives_String, Ref Primitives_Number, Ref Primitives_Bigint,
          Ref Primitives_Boolean, Ref Primitives_Undefined, Ref Primitives_Symbol,
          Ref Primitives_Object, Ref Primitives_Array, Ref Primitives_Function,
          Ref Primitives_Unknown, Ref Primitives_Type, Ref Primitives_Void]"
  by code_simp

lemma init_state_names:
  "names init_state =
     [(''String'', Primitives_String), (''Number'', Primitives_Number),
      (''Bigint'', Primitives_Bigint), (''Boolean'', Primitives_Boolean),
      (''unknown'', Primitives_Unknown), (''Symbol'', Primitives_Symbol),
      (''Object'', Primitives_Object), (''Array'', Primitives_Array),
      (''Function'', Primitives_Function), (''Type'', Primitives_Type),
      (''void'', Primitives_Void)]"
  by code_simp

lemma init_state_primitive_names:
  "map (\<lambda>(p, t). get (heap init_state) (Ref PrimitiveNames) (KStr p)) primitive_table
   = replicate 12 (Inr Undefined)"
  by code_simp

text \<open>
  So the last line of \<^verbatim>\<open>typeOf\<close> (line 223) finds no primitive type: on the loaded state
  \<^verbatim>\<open>typeOf(42)\<close> is the type named \<^verbatim>\<open>unknown\<close>, as \<^verbatim>\<open>typeOf(undefined)\<close> is.
\<close>

lemma typeOf_number_unknown: "fst (typeOf (Num 42) init_state) = Inr (Ref Primitives_Unknown)"
  by code_simp

lemma typeOf_undefined: "fst (typeOf Undefined init_state) = Inr (Ref Primitives_Unknown)"
  by code_simp

text \<open>
  A name that \<^verbatim>\<open>PrimitiveNames\<close> inherits from \<^verbatim>\<open>Object.prototype\<close> is answered by line 168
  with the inherited value.
\<close>

lemma parse_inherited_name:
  "fst (parse ''constructor'' init_state) = Inr (Ref ObjectCtor)
   \<and> fst (parse ''__defineGetter__'' init_state) = Inr (Ref 16)
   \<and> fst (parse ''__proto__'' init_state) = Inl OutOfModel"
  by code_simp

section \<open>Heap updates\<close>

text \<open>
  What \<^verbatim>\<open>Reflect.defineProperty\<close> and an assignment change in the heap, and what they leave
  alone.
\<close>

lemma obj_at_list_update:
  "obj_at (h[a := ob]) b = (if b = a \<and> a < length h then ob else obj_at h b)"
  by (simp add: obj_at_def)

lemma obj_at_append:
  "obj_at (h @ [x]) b = (if b < length h then obj_at h b else if b = length h then x else dangling)"
  by (simp add: obj_at_def nth_append)

lemma length_define_property [simp]: "length (define_property h a k d) = length h"
  by (simp add: define_property_def Let_def)

lemma obj_at_define_property:
  "obj_at (define_property h a k d) b =
     (if b = a \<and> a < length h
      then (obj_at h a)\<lparr>props := define_own (extensible (obj_at h a)) (props (obj_at h a)) k d\<rparr>
      else obj_at h b)"
  by (simp add: define_property_def Let_def obj_at_list_update)

lemma kind_define_property [simp]:
  "kind (obj_at (define_property h a k d) b) = kind (obj_at h b)"
  by (simp add: obj_at_define_property)

lemma proto_define_property [simp]:
  "proto (obj_at (define_property h a k d) b) = proto (obj_at h b)"
  by (simp add: obj_at_define_property)

lemma extensible_define_property [simp]:
  "extensible (obj_at (define_property h a k d) b) = extensible (obj_at h b)"
  by (simp add: obj_at_define_property)

lemma elems_define_property [simp]:
  "elems (obj_at (define_property h a k d) b) = elems (obj_at h b)"
  by (simp add: obj_at_define_property)

lemma define_own_new:
  "map_of ps k = None \<Longrightarrow> map_of (define_own True ps k d) k = Some d"
  by (simp add: define_own_def map_add_def)

lemma define_own_other:
  "k' \<noteq> k \<Longrightarrow> map_of (define_own ext ps k d) k' = map_of ps k'"
  by (simp add: define_own_def map_add_def update_conv' split: option.splits)

lemma define_own_hidden_kept:
  "map_of ps k = Some (hidden x) \<Longrightarrow> define_own ext ps k (hidden y) = ps"
  by (simp add: define_own_def hidden_def)

lemma own_prop_define_property_other_key:
  "k' \<noteq> k \<Longrightarrow> own_prop (define_property h a k d) b k' = own_prop h b k'"
  by (simp add: own_prop_def obj_at_define_property define_own_other)

lemma own_prop_define_property_other_addr:
  "b \<noteq> a \<Longrightarrow> own_prop (define_property h a k d) b k' = own_prop h b k'"
  by (simp add: own_prop_def obj_at_define_property)

lemma own_prop_define_property_new:
  "a < length h \<Longrightarrow> extensible (obj_at h a) \<Longrightarrow> own_prop h a k = None \<Longrightarrow>
   own_prop (define_property h a k d) a k = Some d"
  by (simp add: own_prop_def obj_at_define_property define_own_new)

lemma define_property_refused:
  assumes "\<not> extensible (obj_at h a)" and "own_prop h a k = None"
  shows "define_property h a k d = h"
proof -
  have "define_own (extensible (obj_at h a)) (props (obj_at h a)) k d = props (obj_at h a)"
    using assms by (simp add: own_prop_def define_own_def)
  then have "define_property h a k d = h[a := obj_at h a]"
    by (simp add: define_property_def Let_def)
  then show ?thesis by (auto simp: obj_at_def list_update_beyond not_less)
qed

lemma define_property_hidden_kept:
  assumes "own_prop h a k = Some (hidden x)"
  shows "define_property h a k (hidden y) = h"
proof -
  have "define_own (extensible (obj_at h a)) (props (obj_at h a)) k (hidden y) = props (obj_at h a)"
    using assms by (simp add: own_prop_def define_own_hidden_kept)
  then have "define_property h a k (hidden y) = h[a := obj_at h a]"
    by (simp add: define_property_def Let_def)
  then show ?thesis by (auto simp: obj_at_def list_update_beyond not_less)
qed

lemma typeof_function_valid: "typeof h (Ref a) = ''function'' \<Longrightarrow> a < length h"
  by (auto simp: obj_at_def dangling_def split: if_splits)

lemma typeof_define_property [simp]:
  "typeof (define_property h a k d) v = typeof h v"
  by (cases v) simp_all

lemma store_ref:
  "store (Ref a) t s = (Inr (), s\<lparr>heap := define_property (heap s) a (KSym CachedType) (hidden t)\<rparr>)"
  by (simp add: store_def bindM_def typeofM_def)

lemma restore_ref:
  "restore (Ref a) s =
     (Inr (case own_prop (heap s) a (KSym CachedType) of Some d \<Rightarrow> pvalue d | None \<Rightarrow> Undefined), s)"
  by (simp add: restore_def bindM_def typeofM_def returnM_def)

lemma bindM_Inr:
  assumes "bindM m f s = (Inr y, s2)"
  obtains x s1 where "m s = (Inr x, s1)" and "f x s1 = (Inr y, s2)"
proof (cases "m s")
  case (Pair r s1)
  with assms show ?thesis
    by (cases r) (auto simp: bindM_def intro: that)
qed

lemma set_prop_frame:
  assumes "set_prop h (Ref a) k x = Inr h'"
  shows "length h' = length h"
    and "\<And>b. b \<noteq> a \<Longrightarrow> obj_at h' b = obj_at h b"
    and "\<And>b. kind (obj_at h' b) = kind (obj_at h b)"
    and "\<And>b. proto (obj_at h' b) = proto (obj_at h b)"
    and "\<And>b. extensible (obj_at h' b) = extensible (obj_at h b)"
    and "\<And>b k'. k' \<noteq> k \<Longrightarrow> own_prop h' b k' = own_prop h b k'"
proof -
  from assms obtain ps where ps: "assign_own (obj_at h a) (find_prop h a k) k x = Some ps"
    and h': "h' = h[a := (obj_at h a)\<lparr>props := ps\<rparr>]"
    by (auto split: option.splits if_splits)
  have other: "\<And>k'. k' \<noteq> k \<Longrightarrow> map_of ps k' = map_of (props (obj_at h a)) k'"
    using ps by (auto simp: assign_own_def update_conv' map_add_def split: option.splits if_splits)
  show "length h' = length h" by (simp add: h')
  show "\<And>b. b \<noteq> a \<Longrightarrow> obj_at h' b = obj_at h b" by (simp add: h' obj_at_list_update)
  show "\<And>b. kind (obj_at h' b) = kind (obj_at h b)" by (simp add: h' obj_at_list_update)
  show "\<And>b. proto (obj_at h' b) = proto (obj_at h b)" by (simp add: h' obj_at_list_update)
  show "\<And>b. extensible (obj_at h' b) = extensible (obj_at h b)" by (simp add: h' obj_at_list_update)
  show "\<And>b k'. k' \<noteq> k \<Longrightarrow> own_prop h' b k' = own_prop h b k'"
    using other by (simp add: h' own_prop_def obj_at_list_update)
qed

lemma setM_Inr:
  assumes "setM (Ref a) k x s = (Inr u, s')"
  obtains h' where "set_prop (heap s) (Ref a) k x = Inr h'" and "s' = s\<lparr>heap := h'\<rparr>"
  using assms by (auto simp: setM_def split: sum.splits)

text \<open>
  A property found up the prototype chain is still found, and is the same, in a heap that
  has grown and whose old objects have kept their prototypes and their properties of that
  key.
\<close>

lemma lookup_chain_stable:
  assumes "lookup_chain n h a k = Some p"
    and "length h \<le> length h'"
    and "\<And>b. b < length h \<Longrightarrow> own_prop h' b k = own_prop h b k"
    and "\<And>b. b < length h \<Longrightarrow> proto (obj_at h' b) = proto (obj_at h b)"
    and "n \<le> m"
  shows "lookup_chain m h' a k = Some p"
  using assms(1,5)
proof (induction n arbitrary: a m)
  case 0
  then show ?case by simp
next
  case (Suc n)
  from Suc.prems(2) obtain m' where m: "m = Suc m'" and le: "n \<le> m'"
    by (cases m) auto
  have valid: "a < length h"
  proof (rule ccontr)
    assume "\<not> a < length h"
    then have "lookup_chain (Suc n) h a k = None"
      by (simp add: own_prop_def obj_at_def dangling_def)
    with Suc.prems(1) show False by simp
  qed
  show ?case
  proof (cases "own_prop h a k")
    case (Some q)
    with Suc.prems(1) valid assms(3) show ?thesis by (simp add: m)
  next
    case None
    with Suc.prems(1) obtain b where b: "proto (obj_at h a) = Some b"
      and rest: "lookup_chain n h b k = Some p"
      by (auto split: option.splits)
    from Suc.IH [OF rest le] None b valid assms(3,4) show ?thesis by (simp add: m)
  qed
qed

lemma get_stable:
  assumes "get h (Ref a) k = Inr (Str n)"
    and "length h \<le> length h'"
    and "\<And>b. b < length h \<Longrightarrow> own_prop h' b k = own_prop h b k"
    and "\<And>b. b < length h \<Longrightarrow> proto (obj_at h' b) = proto (obj_at h b)"
  shows "get h' (Ref a) k = Inr (Str n)"
proof -
  from assms(1) obtain p where p: "find_prop h a k = Some p" and v: "pvalue p = Str n"
    and k: "\<not> accessor_key k"
    by (auto split: option.splits if_splits)
  from p have "lookup_chain (length h) h a k = Some p" by (simp add: find_prop_def)
  from lookup_chain_stable [OF this assms(2) assms(3) assms(4) assms(2)]
  have "find_prop h' a k = Some p" by (simp add: find_prop_def)
  with v k show ?thesis by simp
qed

text \<open>The effect of \<^verbatim>\<open>create\<close> and of \<^verbatim>\<open>named\<close> on the state.\<close>

lemma create_effect:
  "create s =
     (Inr (length (heap s)),
      s\<lparr>heap := define_property (heap s @ [plain_object]) (length (heap s)) (KSym TypeSignature)
                 (hidden (Sym (next_sym s))),
        next_sym := next_sym s + 1\<rparr>)"
  by (simp add: create_def bindM_def new_object_def alloc_def new_symbol_def returnM_def)

lemma named_effect:
  "named n s =
     (case map_of (names s) n of
        Some t \<Rightarrow> (Inr t, s)
      | None \<Rightarrow>
          (Inr (length (heap s)),
           s\<lparr>heap := define_property
                       (define_property (heap s @ [plain_object]) (length (heap s)) (KSym TypeSignature)
                          (hidden (Sym (next_sym s))))
                       (length (heap s)) (KSym toStringTag) (hidden (Str n)),
             next_sym := next_sym s + 1,
             names := AList.update n (length (heap s)) (names s)\<rparr>))"
  by (simp add: named_def bindM_def Names_get_def Names_set_def create_effect returnM_def
      split: option.splits)

text \<open>A name that the registry holds is answered from the registry, and nothing changes.\<close>

lemma parse_registered:
  "map_of (names s) n = Some t \<Longrightarrow> parse n s = (Inr (Ref t), s)"
  by (simp add: parse.simps bindM_def Names_get_def returnM_def)

section \<open>The claims\<close>

subsection \<open>C1: interning\<close>

text \<open>
  C1 says that every call \<^verbatim>\<open>complex(B, [A1..An])\<close> returns the same object as every other
  call with the same base and arguments, whatever calls of \<^verbatim>\<open>complex\<close> lie between, with
  shorter or longer argument lists. On the loaded state the calls
  \<^verbatim>\<open>complex("B", ["A"])\<close>, \<^verbatim>\<open>complex("B", ["A", "C"])\<close>, \<^verbatim>\<open>complex("B", ["A"])\<close> return the
  objects at 37, 41 and 43: the first and the third call have the same base and arguments
  and return different objects, which \<^verbatim>\<open>compare\<close> finds different. The second call finds
  the first result in the slot of \<^verbatim>\<open>A\<close> under \<^verbatim>\<open>B\<close> and puts a map in its place (lines 103
  to 109); the third call finds that map in the slot, which is neither a type nor
  \<^verbatim>\<open>undefined\<close>, and reaches line 125, which creates a type and stores it nowhere.
\<close>

theorem complex_repeated_call_differs:
  "fst (bindM (complex (Str ''B'') [Str ''A'']) (\<lambda>r1.
        bindM (complex (Str ''B'') [Str ''A'', Str ''C'']) (\<lambda>r2.
        bindM (complex (Str ''B'') [Str ''A'']) (\<lambda>r3.
        bindM (compare r1 r3) (\<lambda>same.
        returnM (r1, r2, r3, same))))) init_state)
   = Inr (Ref 37, Ref 41, Ref 43, False)"
  by code_simp

text \<open>
  Without the longer list in between, the second call returns the object of the first, and
  the order of the arguments matters.
\<close>

lemma complex_repeated_call_same:
  "fst (bindM (complex (Str ''B'') [Str ''A'', Str ''C'']) (\<lambda>r1.
        bindM (complex (Str ''B'') [Str ''A'', Str ''C'']) (\<lambda>r2.
        bindM (complex (Str ''B'') [Str ''C'', Str ''A'']) (\<lambda>r3.
        returnM (r1, r2, r3)))) init_state)
   = Inr (Ref 39, Ref 39, Ref 43)"
  by code_simp

subsection \<open>C2: nested generics\<close>

text \<open>
  C2 says that \<^verbatim>\<open>parse("List<Map<string, number>>")\<close> takes \<^verbatim>\<open>List\<close> as the base path and
  splits the parameter list into the one parameter \<^verbatim>\<open>Map<string, number>\<close>. The first group
  of the regular expression of line 176 is greedy, so the base path is \<^verbatim>\<open>List<Map\<close> and the
  parameter list is \<^verbatim>\<open>string, number>\<close>, which the loop of lines 185 to 196 splits at its
  comma (the depth is 0 there) into \<^verbatim>\<open>string\<close> and \<^verbatim>\<open>number>\<close>. On the loaded state the
  parsed type has the base named \<^verbatim>\<open>List<Map\<close> and two arguments, named \<^verbatim>\<open>string\<close> and
  \<^verbatim>\<open>number>\<close>.
\<close>

theorem parse_nested_generic_splits_inner:
  "split_name ''List<Map<string, number>>'' = (None, ''List<Map'', Some ''string, number>'')
   \<and> split_params ''string, number>'' = [''string'', ''number>'']
   \<and> fst (bindM (parse ''List<Map<string, number>>'') (\<lambda>t.
            bindM (typeArguments t) (\<lambda>args.
            bindM (array_elems args) (\<lambda>xs.
            bindM (mapM nameOf xs) (\<lambda>argNames.
            bindM (baseType t) (\<lambda>base.
            bindM (nameOf base) (\<lambda>baseName.
            returnM (baseName, argNames))))))) init_state)
       = Inr (Str ''List<Map'', [Str ''string'', Str ''number>''])"
  by code_simp

text \<open>
  The loop itself is aware of the depth: given the parameter list of a nested generic it
  does not split at the inner comma.
\<close>

lemma split_params_depth:
  "split_params ''Map<string, number>'' = [''Map<string, number>'']
   \<and> split_params ''string, List<int>'' = [''string'', ''List<int>'']"
  by code_simp

text \<open>
  \<open>match_generic\<close> is the match of the regular expression: a match is a way to write the
  string as a first group, \<^verbatim>\<open><\<close>, a second group and \<^verbatim>\<open>>\<close>, with no line terminator in
  it; there is a match whenever there is such a way; and the first group of the match is
  the longest there is, as a greedy group's is.
\<close>

lemma match_generic_sound:
  assumes "match_generic fqn = Some (p, q)"
  shows "fqn = p @ ''<'' @ q @ ''>''"
    and "CHR ''<'' \<notin> set q"
    and "\<not> list_ex is_line_terminator fqn"
proof -
  let ?body = "butlast fqn"
  let ?P = "\<lambda>c. c \<noteq> CHR ''<''"
  from assms have ne: "fqn \<noteq> []" and l: "last fqn = CHR ''>''"
    and m: "CHR ''<'' \<in> set ?body" and nl: "\<not> list_ex is_line_terminator fqn"
    and q: "q = rev (takeWhile ?P (rev ?body))"
    and p: "p = rev (tl (dropWhile ?P (rev ?body)))"
    by (auto simp: match_generic_def Let_def split: if_splits)
  from m have "dropWhile ?P (rev ?body) \<noteq> []"
    by (simp add: dropWhile_eq_Nil_conv)
  moreover from this have "hd (dropWhile ?P (rev ?body)) = CHR ''<''"
    using hd_dropWhile [of ?P "rev ?body"] by simp
  ultimately have d: "dropWhile ?P (rev ?body) = CHR ''<'' # tl (dropWhile ?P (rev ?body))"
    by (cases "dropWhile ?P (rev ?body)") simp_all
  have "rev ?body = takeWhile ?P (rev ?body) @ dropWhile ?P (rev ?body)"
    by simp
  then have "rev ?body = takeWhile ?P (rev ?body) @ CHR ''<'' # tl (dropWhile ?P (rev ?body))"
    using d by simp
  then have "rev (rev ?body) = rev (takeWhile ?P (rev ?body) @ CHR ''<'' # tl (dropWhile ?P (rev ?body)))"
    by (rule arg_cong)
  then have body: "?body = p @ ''<'' @ q"
    by (simp add: p q)
  from ne l have "fqn = ?body @ ''>''"
    using append_butlast_last_id [of fqn] by simp
  with body show "fqn = p @ ''<'' @ q @ ''>''" by simp
  show "CHR ''<'' \<notin> set q"
    unfolding q using set_takeWhileD [of "CHR ''<''" ?P "rev ?body"] by auto
  show "\<not> list_ex is_line_terminator fqn" by (rule nl)
qed

lemma match_generic_greedy:
  assumes "match_generic fqn = Some (p, q)" and "fqn = p' @ ''<'' @ q' @ ''>''"
  shows "length p' \<le> length p"
proof (rule ccontr)
  assume "\<not> length p' \<le> length p"
  then have longer: "length p < length p'" by simp
  from match_generic_sound(1) [OF assms(1)] assms(2)
  have "p @ CHR ''<'' # q = p' @ CHR ''<'' # q'" by simp
  then obtain us where "(p = p' @ us \<and> us @ CHR ''<'' # q = CHR ''<'' # q')
      \<or> (p @ us = p' \<and> CHR ''<'' # q = us @ CHR ''<'' # q')"
    by (auto simp: append_eq_append_conv2)
  with longer have us: "p @ us = p'" and eq: "CHR ''<'' # q = us @ CHR ''<'' # q'"
    by auto
  from us longer have "us \<noteq> []" by auto
  with eq have "CHR ''<'' \<in> set q"
    by (cases us) auto
  with match_generic_sound(2) [OF assms(1)] show False by simp
qed

lemma match_generic_complete:
  assumes "fqn = p @ ''<'' @ q @ ''>''" and "\<not> list_ex is_line_terminator fqn"
  shows "match_generic fqn \<noteq> None"
proof -
  have "butlast fqn = p @ ''<'' @ q"
    using assms(1) butlast_append [of "p @ ''<'' @ q" "''>''"] by simp
  then have "CHR ''<'' \<in> set (butlast fqn)" by simp
  moreover have "fqn \<noteq> []" and "last fqn = CHR ''>''"
    using assms(1) by simp_all
  ultimately show ?thesis
    using assms(2) by (simp add: match_generic_def Let_def)
qed

subsection \<open>C3: the resolver on every value\<close>

text \<open>
  C3 says that \<^verbatim>\<open>typeOf\<close> returns a type for every value, \<^verbatim>\<open>null\<close> included, and raises no
  error. In every state \<^verbatim>\<open>typeOf(null)\<close> throws a TypeError: \<^verbatim>\<open>isType\<close> (line 247) reads
  \<^verbatim>\<open>v[TypeSignature]\<close> once \<^verbatim>\<open>typeof v\<close> is \<^verbatim>\<open>"object"\<close>, which it is for \<^verbatim>\<open>null\<close>.
\<close>

theorem typeOf_null_throws: "typeOf Null s = (Inl TypeError, s)"
  by (simp add: typeOf_def isType_def bindM_def typeofM_def getM_def)

text \<open>
  An object with a \<^verbatim>\<open>null\<close> prototype (\<^verbatim>\<open>Object.create(null)\<close>) fails as well:
  \<^verbatim>\<open>getInstanceType\<close> hands the \<^verbatim>\<open>null\<close> prototype to \<^verbatim>\<open>getPrototypeType\<close>, which reads its
  \<^verbatim>\<open>constructor\<close>. A frozen object is resolved, though nothing is cached on it.
\<close>

lemma typeOf_null_prototype_throws:
  "fst (bindM null_prototype_object (\<lambda>v. typeOf (Ref v)) init_state) = Inl TypeError"
  by code_simp

lemma typeOf_frozen_object:
  "fst (bindM frozen_object (\<lambda>v. bindM (typeOf (Ref v)) (\<lambda>t. bindM (restore (Ref v)) (\<lambda>c.
          returnM (t, c)))) init_state)
   = Inr (Ref Primitives_Object, Undefined)"
  by code_simp

subsection \<open>C4: canonical naming\<close>

text \<open>
  C4 says that two calls \<^verbatim>\<open>parse(n)\<close> return the same object for every name \<open>n\<close> and in
  every state. In the state that \<^verbatim>\<open>parse("List<A, B>")\<close> leaves, two calls
  \<^verbatim>\<open>parse("List< A>")\<close> in a row return the objects at 41 and 43, which \<^verbatim>\<open>compare\<close> finds
  different, though both carry the display name \<^verbatim>\<open>List<A>\<close>. The name is not that display
  name, under which alone the result is registered (line 207), so the second call interns
  again, and \<^verbatim>\<open>complex\<close> finds a map in the slot of \<^verbatim>\<open>A\<close> under \<^verbatim>\<open>List\<close> and creates a type
  on each call (line 125), as in C1.
\<close>

theorem parse_repeated_call_differs:
  "fst (bindM (parse ''List<A, B>'') (\<lambda>_.
        bindM (parse ''List< A>'') (\<lambda>r1.
        bindM (parse ''List< A>'') (\<lambda>r2.
        bindM (compare r1 r2) (\<lambda>same.
        bindM (nameOf r1) (\<lambda>name1.
        bindM (nameOf r2) (\<lambda>name2.
        returnM (r1, r2, same, name1, name2))))))) init_state)
   = Inr (Ref 41, Ref 43, False, Str ''List<A>'', Str ''List<A>'')"
  by code_simp

text \<open>
  With no longer parameter list before them, the two calls return one object.
\<close>

lemma parse_repeated_call_same:
  "fst (bindM (parse ''List< A>'') (\<lambda>r1.
        bindM (parse ''List< A>'') (\<lambda>r2.
        bindM (compare r1 r2) (\<lambda>same.
        returnM (r1, r2, same)))) init_state)
   = Inr (Ref 37, Ref 37, True)"
  by code_simp

subsection \<open>C5: primitive names\<close>

text \<open>
  C5 says that the parser resolves a key of the primitive table to the pre-seeded primitive
  type, whatever the name registry holds under that key. \<^verbatim>\<open>parse\<close> asks the registry first
  (line 165) and the primitive table second (line 168): once \<^verbatim>\<open>typeOf\<close> has resolved a
  class named \<^verbatim>\<open>string\<close>, the registry holds a type under that key (the object at 35), and
  \<^verbatim>\<open>parse("string")\<close> returns it, not \<^verbatim>\<open>Primitives.String\<close> (the object at 22).
\<close>

theorem parse_primitive_name_shadowed:
  "fst (bindM (declare_class ''string'') (\<lambda>f.
        bindM (typeOf (Ref f)) (\<lambda>t.
        bindM (parse ''string'') (\<lambda>r.
        returnM (t, r, r = Ref Primitives_String)))) init_state)
   = Inr (Ref 35, Ref 35, False)"
  by code_simp

text \<open>
  C5 as amended: for every key \<open>p\<close> of the primitive table and in every state, whatever
  \<^verbatim>\<open>PrimitiveNames\<close> holds, \<^verbatim>\<open>parse(p)\<close> returns the entry of the name registry under \<open>p\<close>
  when the registry holds one, and changes nothing.
\<close>

theorem parse_primitive_name:
  assumes "p \<in> set (map fst primitive_table)" and "map_of (names s) p = Some r"
  shows "parse p s = (Inr (Ref r), s)"
  using assms(2) by (rule parse_registered)

lemma shadowed_state_facts:
  "''string'' \<in> set (map fst primitive_table)"
  "map_of (names shadowed_state) ''string'' = Some 35"
  by code_simp+

text \<open>The state in which \<^verbatim>\<open>typeOf\<close> has resolved a class named \<^verbatim>\<open>string\<close> is such a state.\<close>

theorem parse_primitive_name_witness:
  "''string'' \<in> set (map fst primitive_table)
   \<and> map_of (names shadowed_state) ''string'' = Some 35
   \<and> parse ''string'' shadowed_state = (Inr (Ref 35), shadowed_state)"
  using parse_primitive_name [OF shadowed_state_facts] shadowed_state_facts
  by simp

text \<open>
  What \<^verbatim>\<open>parse\<close> returns for a key under which the registry holds nothing is no part of
  the amended claim. On the loaded state it is not the pre-seeded primitive type:
  \<^verbatim>\<open>PrimitiveNames\<close> holds \<^verbatim>\<open>undefined\<close> under \<^verbatim>\<open>string\<close>, as under every key
  (\<open>init_state_primitive_names\<close>), so line 168 does not answer, and \<^verbatim>\<open>parse("string")\<close>
  goes on to line 178 and makes a new type named \<^verbatim>\<open>string\<close> (the object at 33), which is
  not \<^verbatim>\<open>Primitives.String\<close> (named \<^verbatim>\<open>String\<close>). Of the twelve keys, \<^verbatim>\<open>parse\<close> resolves only
  \<^verbatim>\<open>unknown\<close> and \<^verbatim>\<open>void\<close> to the constants they name, and these two from the registry,
  where \<^verbatim>\<open>primitives.ts\<close> has registered them (its lines 8, 13 and 15).
\<close>

lemma parse_primitive_name_not_seeded:
  "fst (bindM (parse ''string'') (\<lambda>r.
        bindM (nameOf r) (\<lambda>name.
        bindM (nameOf (Ref Primitives_String)) (\<lambda>primitiveName.
        returnM (r, name, primitiveName, r = Ref Primitives_String)))) init_state)
   = Inr (Ref 33, Str ''string'', Str ''String'', False)"
  by code_simp

lemma parse_primitive_table:
  "map (\<lambda>(p, t). fst (parse p init_state) = Inr (Ref t)) primitive_table
   = [False, False, False, False, False, False, False, False, False, True, False, True]"
  by code_simp

subsection \<open>C6: invalid references\<close>

text \<open>
  C6 says that \<^verbatim>\<open>type(ref)\<close> fails with the invalid-reference error for every reference that
  is not a string, a type, a typed value or a class, \<^verbatim>\<open>null\<close> among them. In every state
  \<^verbatim>\<open>type(null)\<close> throws a TypeError instead: \<^verbatim>\<open>isTyped\<close> (line 239) reads \<^verbatim>\<open>v["Type"]\<close> once
  \<^verbatim>\<open>typeof v\<close> is \<^verbatim>\<open>"object"\<close>, before line 86 is reached.
\<close>

theorem type_null_throws_TypeError: "type Null s = (Inl TypeError, s)"
  by (simp add: type.simps type_other_def isTyped_def bindM_def typeofM_def getM_def)

text \<open>
  On a number and on a plain object the error is the invalid-reference one; a string, a
  type and a class are resolved.
\<close>

lemma type_number_invalid: "type (Num n) s = (Inl InvalidReference, s)"
  by (simp add: type.simps type_other_def isTyped_def isType_def isClass_def bindM_def
      typeofM_def returnM_def throwM_def)

lemma type_plain_object_invalid:
  "fst (bindM new_object (\<lambda>v. type (Ref v)) init_state) = Inl InvalidReference"
  by code_simp

lemma type_accepted_shapes:
  "fst (bindM (type (Str ''Foo'')) (\<lambda>t1. bindM (type t1) (\<lambda>t2. bindM (declare_class ''Bar'') (\<lambda>c.
        bindM (type (Ref c)) (\<lambda>t3. returnM (t1, t2, t3))))) init_state)
   = Inr (Ref 33, Ref 33, Ref 36)"
  by code_simp

subsection \<open>C7: the value-type cache\<close>

text \<open>
  C7 says that for every object or function \<open>v\<close>, \<^verbatim>\<open>restore(v)\<close> returns \<open>T\<close> after
  \<^verbatim>\<open>store(v, T)\<close>. On a frozen object \<^verbatim>\<open>Reflect.defineProperty\<close> adds nothing, \<^verbatim>\<open>store\<close>
  ignores that (line 131), and \<^verbatim>\<open>restore\<close> returns \<^verbatim>\<open>undefined\<close>.
\<close>

theorem store_frozen_object_not_restored:
  "fst (bindM frozen_object (\<lambda>v.
        bindM (store (Ref v) (Ref Primitives_String)) (\<lambda>_.
        restore (Ref v))) init_state)
   = Inr Undefined"
  by code_simp

text \<open>
  C7 as amended: for every object or function \<open>v\<close> that is extensible and has no cached
  entry, \<^verbatim>\<open>restore(v)\<close> returns \<open>T\<close> after \<^verbatim>\<open>store(v, T)\<close>, and a later \<^verbatim>\<open>store(v, T')\<close>
  changes nothing: \<^verbatim>\<open>restore(v)\<close> still returns \<open>T\<close>.
\<close>

theorem store_write_once:
  assumes "a < length (heap s)"
    and "extensible (obj_at (heap s) a)"
    and "own_prop (heap s) a (KSym CachedType) = None"
  shows "restore (Ref a) (snd (store (Ref a) t s)) = (Inr t, snd (store (Ref a) t s))
       \<and> store (Ref a) t' (snd (store (Ref a) t s)) = (Inr (), snd (store (Ref a) t s))"
proof -
  let ?h = "define_property (heap s) a (KSym CachedType) (hidden t)"
  have own: "own_prop ?h a (KSym CachedType) = Some (hidden t)"
    using assms by (simp add: own_prop_define_property_new)
  have s1: "snd (store (Ref a) t s) = s\<lparr>heap := ?h\<rparr>"
    by (simp add: store_ref)
  have "restore (Ref a) (s\<lparr>heap := ?h\<rparr>) = (Inr t, s\<lparr>heap := ?h\<rparr>)"
    using own by (simp add: restore_ref hidden_def)
  moreover have "store (Ref a) t' (s\<lparr>heap := ?h\<rparr>) = (Inr (), s\<lparr>heap := ?h\<rparr>)"
    using define_property_hidden_kept [OF own] by (simp add: store_ref)
  ultimately show ?thesis by (simp only: s1)
qed

lemma fresh_object_valid: "33 < length (heap fresh_object_state)"
  by code_simp

lemma fresh_object_extensible: "extensible (obj_at (heap fresh_object_state) 33)"
  by code_simp

lemma fresh_object_uncached: "own_prop (heap fresh_object_state) 33 (KSym CachedType) = None"
  by code_simp

text \<open>The object of \<^verbatim>\<open>const o = {}\<close> on the loaded state is such a value.\<close>

theorem store_write_once_witness:
  "33 < length (heap fresh_object_state)
   \<and> extensible (obj_at (heap fresh_object_state) 33)
   \<and> own_prop (heap fresh_object_state) 33 (KSym CachedType) = None
   \<and> restore (Ref 33) (snd (store (Ref 33) (Ref Primitives_String) fresh_object_state))
       = (Inr (Ref Primitives_String), snd (store (Ref 33) (Ref Primitives_String) fresh_object_state))
   \<and> store (Ref 33) (Ref Primitives_Number)
         (snd (store (Ref 33) (Ref Primitives_String) fresh_object_state))
       = (Inr (), snd (store (Ref 33) (Ref Primitives_String) fresh_object_state))"
  using store_write_once [OF fresh_object_valid fresh_object_extensible fresh_object_uncached,
      of "Ref Primitives_String" "Ref Primitives_Number"]
    fresh_object_valid fresh_object_extensible fresh_object_uncached
  by simp

text \<open>
  An entry that \<^verbatim>\<open>store\<close> has written is kept by every later \<^verbatim>\<open>store\<close>, on any object;
  and on every object that is not extensible and has no entry, \<^verbatim>\<open>store\<close> stores nothing.
\<close>

lemma store_keeps_entry:
  "own_prop (heap s) a (KSym CachedType) = Some (hidden t) \<Longrightarrow> store (Ref a) t' s = (Inr (), s)"
  using define_property_hidden_kept [of "heap s" a "KSym CachedType" t t'] by (simp add: store_ref)

lemma store_not_extensible:
  assumes "\<not> extensible (obj_at (heap s) a)"
    and "own_prop (heap s) a (KSym CachedType) = None"
  shows "store (Ref a) t s = (Inr (), s)"
    and "restore (Ref a) s = (Inr Undefined, s)"
  using assms define_property_refused [of "heap s" a "KSym CachedType" "hidden t"]
  by (simp_all add: store_ref restore_ref)

subsection \<open>C8: round-trip naming\<close>

text \<open>
  C8 says that \<^verbatim>\<open>parse("Map<string, number>")\<close> yields a type whose \<^verbatim>\<open>nameOf\<close> is
  \<^verbatim>\<open>Map<String, Number>\<close>, that this display name is registered as an alias, and that
  \<^verbatim>\<open>parse("Map<String, Number>")\<close> returns the same object. On the loaded state
  \<^verbatim>\<open>PrimitiveNames\<close> holds \<^verbatim>\<open>undefined\<close> under \<^verbatim>\<open>string\<close> and \<^verbatim>\<open>number\<close>, so the two
  parameters resolve to new types named \<^verbatim>\<open>string\<close> and \<^verbatim>\<open>number\<close>: the result (the object at
  39) has the name \<^verbatim>\<open>Map<string, number>\<close>, the registry holds it under that name and
  holds nothing under \<^verbatim>\<open>Map<String, Number>\<close>, and \<^verbatim>\<open>parse("Map<String, Number>")\<close>, whose
  parameters resolve to \<^verbatim>\<open>Primitives.String\<close> and \<^verbatim>\<open>Primitives.Number\<close> through the
  registry, returns another object (at 42), which \<^verbatim>\<open>compare\<close> finds different.
\<close>

theorem parse_round_trip_naming_fails:
  "fst (bindM (parse ''Map<string, number>'') (\<lambda>t1.
        bindM (nameOf t1) (\<lambda>name.
        bindM (Names_get ''Map<String, Number>'') (\<lambda>alias.
        bindM (Names_get ''Map<string, number>'') (\<lambda>registered.
        bindM (parse ''Map<String, Number>'') (\<lambda>t2.
        bindM (compare t1 t2) (\<lambda>same.
        returnM (t1, name, alias, registered, t2, same))))))) init_state)
   = Inr (Ref 39, Str ''Map<string, number>'', None, Some 39, Ref 42, False)"
  by code_simp

text \<open>
  What does hold on the loaded state is the round trip through the name the result has:
  \<^verbatim>\<open>parse("Map<string,number>")\<close> is named \<^verbatim>\<open>Map<string, number>\<close>, and parsing that name
  returns the same object.
\<close>

lemma parse_round_trip_display_name:
  "fst (bindM (parse ''Map<string,number>'') (\<lambda>t1.
        bindM (nameOf t1) (\<lambda>name.
        bindM (parse ''Map<string, number>'') (\<lambda>t2.
        bindM (compare t1 t2) (\<lambda>same.
        returnM (t1, name, t2, same))))) init_state)
   = Inr (Ref 39, Str ''Map<string, number>'', Ref 39, True)"
  by code_simp

subsection \<open>C9: class resolution\<close>

text \<open>
  C9 says that after \<^verbatim>\<open>register("Foo")\<close> has been applied to a class, \<^verbatim>\<open>typeOf\<close> of a new
  instance returns the type bound to the name \<^verbatim>\<open>Foo\<close>. The registration stores that type on
  the class with \<^verbatim>\<open>store\<close> (line 61), which writes once: on a class that carries an entry
  already the entry stays. On the loaded state let the class \<^verbatim>\<open>Foo\<close> (the object at 33) be
  registered as \<^verbatim>\<open>Bar\<close> and then as \<^verbatim>\<open>Foo\<close>: \<^verbatim>\<open>typeOf(new Foo())\<close> is the type bound to
  \<^verbatim>\<open>Bar\<close> (the object at 35), not the type bound to \<^verbatim>\<open>Foo\<close> (the object at 36), and
  \<^verbatim>\<open>compare\<close> finds the two different.
\<close>

theorem registered_twice_instance:
  "fst (bindM (declare_class ''Foo'') (\<lambda>f.
        bindM (register ''Bar'' (Ref f)) (\<lambda>_.
        bindM (register ''Foo'' (Ref f)) (\<lambda>_.
        bindM (new_instance (Ref f)) (\<lambda>x.
        bindM (typeOf (Ref x)) (\<lambda>t.
        bindM (parse ''Foo'') (\<lambda>foo.
        bindM (parse ''Bar'') (\<lambda>bar.
        bindM (compare t foo) (\<lambda>same.
        returnM (Ref f, Ref x, t, foo, bar, same))))))))) init_state)
   = Inr (Ref 33, Ref 37, Ref 35, Ref 36, Ref 35, False)"
  by code_simp

text \<open>
  A class that is not extensible takes no entry either (\<open>store_not_extensible\<close>), and an
  instance is then resolved by the name of the class, which need not be the registered
  one: with a class named \<^verbatim>\<open>Qux\<close> that \<^verbatim>\<open>Object.preventExtensions\<close> has closed and
  \<^verbatim>\<open>register("Foo")\<close> applied to it, \<^verbatim>\<open>typeOf\<close> of an instance is the type named \<^verbatim>\<open>Qux\<close>.
\<close>

lemma registered_not_extensible_class:
  "fst (bindM (declare_class ''Qux'') (\<lambda>f.
        bindM (prevent_extensions (Ref f)) (\<lambda>_.
        bindM (register ''Foo'' (Ref f)) (\<lambda>_.
        bindM (new_instance (Ref f)) (\<lambda>x.
        bindM (typeOf (Ref x)) (\<lambda>t.
        bindM (nameOf t) (\<lambda>name.
        bindM (parse ''Foo'') (\<lambda>foo.
        returnM (t, name, foo)))))))) init_state)
   = Inr (Ref 37, Str ''Qux'', Ref 35)"
  by code_simp

text \<open>What \<^verbatim>\<open>parse("Foo")\<close> does when \<^verbatim>\<open>Foo\<close> is no key that \<^verbatim>\<open>PrimitiveNames\<close> answers.\<close>

lemma split_name_Foo: "split_name ''Foo'' = (None, ''Foo'', None)"
  by code_simp

lemma parse_Foo_effect:
  assumes prim: "get (heap s) (Ref PrimitiveNames) (KStr ''Foo'') = Inr Undefined"
    and p: "parse ''Foo'' s = (Inr v, s')"
  obtains t where "v = Ref t" and "map_of (names s') ''Foo'' = Some t"
    and "length (heap s) \<le> length (heap s')"
    and "\<And>b. b < length (heap s) \<Longrightarrow> obj_at (heap s') b = obj_at (heap s) b"
proof (cases "map_of (names s) ''Foo''")
  case (Some t)
  with p have "v = Ref t" and "s' = s"
    by (simp_all add: parse.simps bindM_def Names_get_def returnM_def)
  with Some show ?thesis by (auto intro: that)
next
  case None
  let ?t = "length (heap s)"
  obtain sA where nA: "named ''Foo'' s = (Inr ?t, sA)"
    and namesA: "map_of (names sA) ''Foo'' = Some ?t"
    and lenA: "length (heap sA) = Suc ?t"
    and sameA: "\<And>b. b < ?t \<Longrightarrow> obj_at (heap sA) b = obj_at (heap s) b"
    using None by (simp add: named_effect update_conv' obj_at_define_property obj_at_append)
  from p None prim have "bindM (parse_named None ''Foo'') (\<lambda>result. returnM (Ref result)) s = (Inr v, s')"
    by (simp add: parse.simps bindM_def Names_get_def getM_def split_name_Foo)
  then obtain r sB where pn: "parse_named None ''Foo'' s = (Inr r, sB)" and v: "v = Ref r" and s': "s' = sB"
    by (auto elim!: bindM_Inr simp: returnM_def)
  from pn nA obtain u where am: "assign_module_path (Ref ?t) None ''Foo'' sA = (Inr u, sB)" and r: "r = ?t"
    by (auto simp: parse_named_def name_key_def returnM_def bindM_def [of "named ''Foo''"] elim!: bindM_Inr)
  from am obtain u1 s1 where m1: "setM (Ref ?t) (KStr ''module'') Undefined sA = (Inr u1, s1)"
    and m2: "setM (Ref ?t) (KStr ''path'') (Str ''Foo'') s1 = (Inr u, sB)"
    by (auto simp: assign_module_path_def elim!: bindM_Inr)
  from m1 obtain h1 where h1: "set_prop (heap sA) (Ref ?t) (KStr ''module'') Undefined = Inr h1"
    and s1: "s1 = sA\<lparr>heap := h1\<rparr>" by (rule setM_Inr)
  from m2 obtain h2 where h2: "set_prop (heap s1) (Ref ?t) (KStr ''path'') (Str ''Foo'') = Inr h2"
    and sB: "sB = s1\<lparr>heap := h2\<rparr>" by (rule setM_Inr)
  show ?thesis
  proof (rule that [of ?t])
    show "v = Ref ?t" using v r by simp
    show "map_of (names s') ''Foo'' = Some ?t" using namesA by (simp add: s' sB s1)
    show "length (heap s) \<le> length (heap s')"
      using set_prop_frame(1) [OF h1] set_prop_frame(1) [OF h2] lenA by (simp add: s' sB s1)
    show "\<And>b. b < length (heap s) \<Longrightarrow> obj_at (heap s') b = obj_at (heap s) b"
      using set_prop_frame(2) [OF h1] set_prop_frame(2) [OF h2] sameA by (simp add: s' sB s1)
  qed
qed

text \<open>
  What the registration leaves: the name registry holds a type under \<^verbatim>\<open>Foo\<close>, and the class
  carries that type as its cached entry.
\<close>

lemma register_Foo_effect:
  assumes reg: "register ''Foo'' (Ref f) s = (Inr u, s1)"
    and ff: "typeof (heap s) (Ref f) = ''function''"
    and prim: "get (heap s) (Ref PrimitiveNames) (KStr ''Foo'') = Inr Undefined"
    and fresh: "own_prop (heap s) f (KSym CachedType) = None"
    and ext: "extensible (obj_at (heap s) f)"
  obtains t where "map_of (names s1) ''Foo'' = Some t"
    and "own_prop (heap s1) f (KSym CachedType) = Some (hidden (Ref t))"
proof -
  have fv: "f < length (heap s)" using ff by (rule typeof_function_valid)
  from reg ff have rc: "registerClass ''Foo'' (Ref f) s = (Inr u, s1)"
    by (simp add: register_def isClass_def bindM_def typeofM_def returnM_def)
  then obtain v sA where pA: "parse ''Foo'' s = (Inr v, sA)"
    and rest: "bindM (setM v (KStr ''constructor'') (Ref f)) (\<lambda>_. store (Ref f) v) sA = (Inr u, s1)"
    unfolding registerClass_def by (rule bindM_Inr)
  from prim pA obtain t where v: "v = Ref t"
    and namesA: "map_of (names sA) ''Foo'' = Some t"
    and lenA: "length (heap s) \<le> length (heap sA)"
    and sameA: "\<And>b. b < length (heap s) \<Longrightarrow> obj_at (heap sA) b = obj_at (heap s) b"
    by (rule parse_Foo_effect) blast
  from rest obtain u1 sB where sm: "setM (Ref t) (KStr ''constructor'') (Ref f) sA = (Inr u1, sB)"
    and st: "store (Ref f) (Ref t) sB = (Inr u, s1)"
    unfolding v by (rule bindM_Inr)
  from sm obtain hB where hB: "set_prop (heap sA) (Ref t) (KStr ''constructor'') (Ref f) = Inr hB"
    and sB: "sB = sA\<lparr>heap := hB\<rparr>" by (rule setM_Inr)
  have s1: "s1 = sB\<lparr>heap := define_property hB f (KSym CachedType) (hidden (Ref t))\<rparr>"
    using st by (simp add: store_ref sB)
  have fB: "f < length hB" using fv lenA set_prop_frame(1) [OF hB] by simp
  have extB: "extensible (obj_at hB f)"
    using ext sameA [OF fv] set_prop_frame(5) [OF hB] by simp
  have freshB: "own_prop hB f (KSym CachedType) = None"
    using fresh sameA [OF fv] set_prop_frame(6) [OF hB, of "KSym CachedType" f]
    by (simp add: own_prop_def)
  show ?thesis
  proof (rule that [of t])
    show "map_of (names s1) ''Foo'' = Some t"
      using namesA by (simp add: s1 sB)
    show "own_prop (heap s1) f (KSym CachedType) = Some (hidden (Ref t))"
      using own_prop_define_property_new [OF fB extB freshB] by (simp add: s1 sB)
  qed
qed

text \<open>
  C9 as amended: let \<^verbatim>\<open>register("Foo")\<close> be applied to a class \<open>f\<close> that is extensible and
  has no cached entry (\<^verbatim>\<open>PrimitiveNames\<close> holds nothing under \<^verbatim>\<open>Foo\<close>). In every later state \<open>s2\<close> in
  which the registry entry of \<^verbatim>\<open>Foo\<close> and the cached entry of \<open>f\<close> are still those the
  registration left, let \<open>x\<close> be an instance of the class: an object that is no type, has
  no cached entry and no own \<^verbatim>\<open>constructor\<close>, and whose prototype (not \<^verbatim>\<open>Object.prototype\<close>)
  has \<open>f\<close> as its \<^verbatim>\<open>constructor\<close>. Then \<^verbatim>\<open>typeOf(x)\<close> returns the type that the registry
  holds under \<^verbatim>\<open>Foo\<close>, which is what \<^verbatim>\<open>parse("Foo")\<close> returns.
\<close>

theorem registered_class_instance:
  assumes reg: "register ''Foo'' (Ref f) s = (Inr u, s1)"
    and ff: "typeof (heap s) (Ref f) = ''function''"
    and prim: "get (heap s) (Ref PrimitiveNames) (KStr ''Foo'') = Inr Undefined"
    and fresh: "own_prop (heap s) f (KSym CachedType) = None"
    and ext: "extensible (obj_at (heap s) f)"
    and later_names: "map_of (names s2) ''Foo'' = map_of (names s1) ''Foo''"
    and later_cached: "own_prop (heap s2) f (KSym CachedType) = own_prop (heap s1) f (KSym CachedType)"
    and later_class: "typeof (heap s2) (Ref f) = ''function''"
    and xo: "typeof (heap s2) (Ref x) = ''object''"
    and xt: "isType (Ref x) s2 = (Inr False, s2)"
    and xc: "own_prop (heap s2) x (KSym CachedType) = None"
    and xk: "own_prop (heap s2) x (KStr ''constructor'') = None"
    and xp: "proto (obj_at (heap s2) x) = Some p"
    and pn: "p \<noteq> ObjectPrototype"
    and pc: "get (heap s2) (Ref p) (KStr ''constructor'') = Inr (Ref f)"
  shows "\<exists>t s3. map_of (names s2) ''Foo'' = Some t
           \<and> parse ''Foo'' s2 = (Inr (Ref t), s2)
           \<and> typeOf (Ref x) s2 = (Inr (Ref t), s3)"
proof -
  from reg ff prim fresh ext obtain t where names1: "map_of (names s1) ''Foo'' = Some t"
    and cached1: "own_prop (heap s1) f (KSym CachedType) = Some (hidden (Ref t))"
    by (rule register_Foo_effect)
  have names2: "map_of (names s2) ''Foo'' = Some t"
    using names1 later_names by simp
  have cached2: "own_prop (heap s2) f (KSym CachedType) = Some (hidden (Ref t))"
    using cached1 later_cached by simp
  have parse2: "parse ''Foo'' s2 = (Inr (Ref t), s2)"
    using names2 by (rule parse_registered)
  have restore_f: "restore (Ref f) s2 = (Inr (Ref t), s2)"
    using cached2 by (simp add: restore_ref hidden_def)
  have class_f: "getClassType (Ref f) s2 = (Inr (Ref t), s2)"
    using restore_f by (simp add: getClassType_def bindM_def returnM_def)
  have restore_x: "restore (Ref x) s2 = (Inr Undefined, s2)"
    using xc by (simp add: restore_ref)
  have proto_x: "getPrototypeType (Ref p) s2 = (Inr (Ref t), s2)"
    using pc class_f by (simp add: getPrototypeType_def bindM_def getM_def)
  have inst: "getInstanceType (Ref x) s2 =
      (Inr (Ref t), s2\<lparr>heap := define_property (heap s2) x (KSym CachedType) (hidden (Ref t))\<rparr>)"
    using restore_x xp pn proto_x
    by (simp add: getInstanceType_def bindM_def store_ref returnM_def)
  have isproto: "isPrototype (Ref x) s2 = (Inr False, s2)"
    using xo xk by (simp add: isPrototype_def bindM_def typeofM_def returnM_def)
  have "typeOf (Ref x) s2 =
      (Inr (Ref t), s2\<lparr>heap := define_property (heap s2) x (KSym CachedType) (hidden (Ref t))\<rparr>)"
    using xt xo restore_x isproto inst
    by (simp add: typeOf_def bindM_def typeofM_def getObjectType_def returnM_def)
  with names2 parse2 show ?thesis by blast
qed

text \<open>
  The scenario of the specification on the loaded state: the class \<^verbatim>\<open>Foo\<close> is the object at
  33, its prototype the object at 34, the type registered under \<^verbatim>\<open>Foo\<close> the object at 35 and
  \<^verbatim>\<open>new Foo()\<close> the object at 36.
\<close>

lemma class_state_register:
  "register ''Foo'' (Ref 33) class_state = (Inr (), registered_state)"
  unfolding registered_state_def by code_simp

lemma class_state_facts:
  "typeof (heap class_state) (Ref 33) = ''function''"
  "get (heap class_state) (Ref PrimitiveNames) (KStr ''Foo'') = Inr Undefined"
  "own_prop (heap class_state) 33 (KSym CachedType) = None"
  "extensible (obj_at (heap class_state) 33)"
  by code_simp+

lemma instance_state_facts:
  "map_of (names instance_state) ''Foo'' = map_of (names registered_state) ''Foo''"
  "own_prop (heap instance_state) 33 (KSym CachedType)
     = own_prop (heap registered_state) 33 (KSym CachedType)"
  "typeof (heap instance_state) (Ref 33) = ''function''"
  "typeof (heap instance_state) (Ref 36) = ''object''"
  "fst (isType (Ref 36) instance_state) = Inr False"
  "own_prop (heap instance_state) 36 (KSym CachedType) = None"
  "own_prop (heap instance_state) 36 (KStr ''constructor'') = None"
  "proto (obj_at (heap instance_state) 36) = Some 34"
  "34 \<noteq> ObjectPrototype"
  "get (heap instance_state) (Ref 34) (KStr ''constructor'') = Inr (Ref 33)"
  by code_simp+

lemma isType_state: "snd (isType v s) = s"
  by (cases v) (simp_all add: isType_def bindM_def typeofM_def getM_def returnM_def)

lemma instance_state_typeOf: "fst (typeOf (Ref 36) instance_state) = Inr (Ref 35)"
  by code_simp

theorem registered_class_instance_witness:
  "register ''Foo'' (Ref 33) class_state = (Inr (), registered_state)
   \<and> typeof (heap class_state) (Ref 33) = ''function''
   \<and> get (heap class_state) (Ref PrimitiveNames) (KStr ''Foo'') = Inr Undefined
   \<and> own_prop (heap class_state) 33 (KSym CachedType) = None
   \<and> extensible (obj_at (heap class_state) 33)
   \<and> typeof (heap instance_state) (Ref 36) = ''object''
   \<and> proto (obj_at (heap instance_state) 36) = Some 34
   \<and> get (heap instance_state) (Ref 34) (KStr ''constructor'') = Inr (Ref 33)
   \<and> (\<exists>t s3. map_of (names instance_state) ''Foo'' = Some t
           \<and> parse ''Foo'' instance_state = (Inr (Ref t), instance_state)
           \<and> typeOf (Ref 36) instance_state = (Inr (Ref t), s3))"
proof -
  have xt: "isType (Ref 36) instance_state = (Inr False, instance_state)"
    using instance_state_facts(5) isType_state [of "Ref 36" instance_state]
    by (cases "isType (Ref 36) instance_state") simp
  from registered_class_instance [OF class_state_register class_state_facts
      instance_state_facts(1-4) xt instance_state_facts(6-10)]
    class_state_register class_state_facts instance_state_facts
  show ?thesis by simp
qed

subsection \<open>C10: classes of one name\<close>

lemma extractName_function:
  "typeof (heap s) (Ref f) = ''function'' \<Longrightarrow>
   extractName (Ref f) s = (get (heap s) (Ref f) (KStr ''name''), s)"
  by (simp add: extractName_def bindM_def typeofM_def returnM_def getM_def)

lemma typeOf_function_uncached:
  assumes fn: "typeof (heap s) (Ref f) = ''function''"
    and nm: "get (heap s) (Ref f) (KStr ''name'') = Inr (Str n)"
    and ne: "n \<noteq> []"
    and fc: "own_prop (heap s) f (KSym CachedType) = None"
  shows "typeOf (Ref f) s =
     (case named n s of
        (Inr t, s1) \<Rightarrow>
          (Inr (Ref t), s1\<lparr>heap := define_property (heap s1) f (KSym CachedType) (hidden (Ref t))\<rparr>)
      | (Inl e, s1) \<Rightarrow> (Inl e, s1))"
proof -
  have r: "restore (Ref f) s = (Inr Undefined, s)"
    using fc by (simp add: restore_ref)
  have it: "isType (Ref f) s = (Inr False, s)"
    using fn by (simp add: isType_def bindM_def typeofM_def returnM_def)
  obtain r1 s1 where n1: "named n s = (r1, s1)" by (cases "named n s")
  have gc: "getClassType (Ref f) s =
      (case named n s of
         (Inr t, s1) \<Rightarrow>
           (Inr (Ref t), s1\<lparr>heap := define_property (heap s1) f (KSym CachedType) (hidden (Ref t))\<rparr>)
       | (Inl e, s1) \<Rightarrow> (Inl e, s1))"
    using r nm ne fn
    by (cases r1) (simp_all add: getClassType_def bindM_def extractName_function n1 store_ref returnM_def)
  show ?thesis
    using it fn r gc by (simp add: typeOf_def bindM_def typeofM_def returnM_def)
qed

text \<open>
  C10: let \<open>f\<close> and \<open>g\<close> be two different functions (or classes) on which \<^verbatim>\<open>.name\<close> is the
  same non-empty string, neither with a cached entry. Then \<^verbatim>\<open>typeOf(f)\<close> and, after it,
  \<^verbatim>\<open>typeOf(g)\<close> return the same type object: the one that the name registry holds under
  that name.
\<close>

theorem same_name_same_type:
  assumes fg: "f \<noteq> g"
    and ff: "typeof (heap s) (Ref f) = ''function''"
    and gf: "typeof (heap s) (Ref g) = ''function''"
    and fn: "get (heap s) (Ref f) (KStr ''name'') = Inr (Str n)"
    and gn: "get (heap s) (Ref g) (KStr ''name'') = Inr (Str n)"
    and ne: "n \<noteq> []"
    and fc: "own_prop (heap s) f (KSym CachedType) = None"
    and gc: "own_prop (heap s) g (KSym CachedType) = None"
  shows "\<exists>t s1 s2. typeOf (Ref f) s = (Inr (Ref t), s1) \<and> typeOf (Ref g) s1 = (Inr (Ref t), s2)"
proof -
  let ?h = "heap s"
  have gv: "g < length ?h" using gf by (rule typeof_function_valid)
  have fv: "f < length ?h" using ff by (rule typeof_function_valid)
  obtain t s0 where n0: "named n s = (Inr t, s0)"
    and names0: "map_of (names s0) n = Some t"
    and len0: "length ?h \<le> length (heap s0)"
    and same0: "\<And>b. b < length ?h \<Longrightarrow> obj_at (heap s0) b = obj_at ?h b"
  proof (cases "map_of (names s) n")
    case (Some t)
    then show ?thesis using that [of t s] by (simp add: named_effect)
  next
    case None
    show ?thesis
    proof (rule that)
      show "named n s = (Inr (length ?h),
           s\<lparr>heap := define_property
                       (define_property (heap s @ [plain_object]) (length (heap s)) (KSym TypeSignature)
                          (hidden (Sym (next_sym s))))
                       (length (heap s)) (KSym toStringTag) (hidden (Str n)),
             next_sym := next_sym s + 1,
             names := AList.update n (length (heap s)) (names s)\<rparr>)"
        using None by (simp add: named_effect)
    qed (simp_all add: update_conv' obj_at_define_property obj_at_append)
  qed
  let ?s1 = "s0\<lparr>heap := define_property (heap s0) f (KSym CachedType) (hidden (Ref t))\<rparr>"
  have t1: "typeOf (Ref f) s = (Inr (Ref t), ?s1)"
    using typeOf_function_uncached [OF ff fn ne fc] n0 by simp
  have own1: "\<And>b. b < length ?h \<Longrightarrow>
      own_prop (heap ?s1) b (KStr ''name'') = own_prop ?h b (KStr ''name'')"
    using same0 by (simp add: own_prop_define_property_other_key) (simp add: own_prop_def)
  have proto1: "\<And>b. b < length ?h \<Longrightarrow> proto (obj_at (heap ?s1) b) = proto (obj_at ?h b)"
    using same0 by simp
  have gf1: "typeof (heap ?s1) (Ref g) = ''function''"
    using gf same0 [OF gv] by simp
  have gn1: "get (heap ?s1) (Ref g) (KStr ''name'') = Inr (Str n)"
    using get_stable [OF gn _ own1 proto1] len0 by simp
  have gc1: "own_prop (heap ?s1) g (KSym CachedType) = None"
    using gc fg same0 [OF gv] by (simp add: own_prop_define_property_other_addr) (simp add: own_prop_def)
  have n1: "named n ?s1 = (Inr t, ?s1)"
    using names0 by (simp add: named_effect)
  have "typeOf (Ref g) ?s1 =
      (Inr (Ref t), ?s1\<lparr>heap := define_property (heap ?s1) g (KSym CachedType) (hidden (Ref t))\<rparr>)"
    using typeOf_function_uncached [OF gf1 gn1 ne gc1] n1 by simp
  with t1 show ?thesis by blast
qed

text \<open>
  Two classes named \<^verbatim>\<open>Foo\<close>, declared in two scopes on the loaded state, are the objects at
  33 and 35; both resolve to the type at 37.
\<close>

lemma two_classes_facts:
  "(33::nat) \<noteq> 35"
  "typeof (heap two_classes_state) (Ref 33) = ''function''"
  "typeof (heap two_classes_state) (Ref 35) = ''function''"
  "get (heap two_classes_state) (Ref 33) (KStr ''name'') = Inr (Str ''Foo'')"
  "get (heap two_classes_state) (Ref 35) (KStr ''name'') = Inr (Str ''Foo'')"
  "''Foo'' \<noteq> []"
  "own_prop (heap two_classes_state) 33 (KSym CachedType) = None"
  "own_prop (heap two_classes_state) 35 (KSym CachedType) = None"
  by code_simp+

lemma two_classes_typeOf:
  "fst (bindM (typeOf (Ref 33)) (\<lambda>t1. bindM (typeOf (Ref 35)) (\<lambda>t2. bindM (compare t1 t2) (\<lambda>same.
          returnM (t1, t2, same)))) two_classes_state)
   = Inr (Ref 37, Ref 37, True)"
  by code_simp

theorem same_name_same_type_witness:
  "(33::nat) \<noteq> 35
   \<and> typeof (heap two_classes_state) (Ref 33) = ''function''
   \<and> typeof (heap two_classes_state) (Ref 35) = ''function''
   \<and> get (heap two_classes_state) (Ref 33) (KStr ''name'') = Inr (Str ''Foo'')
   \<and> get (heap two_classes_state) (Ref 35) (KStr ''name'') = Inr (Str ''Foo'')
   \<and> own_prop (heap two_classes_state) 33 (KSym CachedType) = None
   \<and> own_prop (heap two_classes_state) 35 (KSym CachedType) = None
   \<and> (\<exists>t s1 s2. typeOf (Ref 33) two_classes_state = (Inr (Ref t), s1)
          \<and> typeOf (Ref 35) s1 = (Inr (Ref t), s2))"
  using same_name_same_type [OF two_classes_facts] two_classes_facts
  by simp

end
